theory Spec2Isabelle
  imports Complex_Main
begin

section \<open>The rollout storage of \<open>core/learners/rollout_storage.py\<close>\<close>

text \<open>
  A tensor of shape \<open>[T, N, ...]\<close> is a list (time) of rows, a row being the list (environment)
  of its entries; what lies behind the second dimension is one entry: an observation \<open>'o\<close>,
  a recurrent state \<open>'h\<close>, an action \<open>'act\<close>, and for the tensors of shape \<open>[T, N, 1]\<close> the
  number itself, of type \<open>'a\<close>. The functions over numbers ask of \<open>'a\<close> only that it has
  \<open>0\<close>, \<open>1\<close>, \<open>+\<close>, \<open>-\<close> and \<open>*\<close>: no law of arithmetic is used, and every expression keeps
  the order of operations Python gives it.

  The shapes are those \<open>__init__\<close> allocates; no method reassigns a tensor, so they are an
  invariant of the class (\<open>shaped\<close> below). A list of rows does not say how long its rows
  are when it has none, and a tensor of shape \<open>[0, N, 1]\<close> does: the field \<open>num_processes\<close>
  holds this size of the second dimension, which \<open>self.rewards.size(1)\<close> reads.
  \<open>compute_returns\<close> takes its argument with the shape it documents.
\<close>

datatype error =
    IndexError | ZeroDivisionError | AssertionError | ValueError | TypeError
  | NotImplementedError | RuntimeError | NotANumber

text \<open>
  All but the last are Python's exceptions. \<open>NotANumber\<close> is not one: it marks the point
  where torch computes NaN (the mean of no element, the standard deviation of fewer than
  two) and goes on with it. The reals have no NaN; the model of \<open>update\<close> ends there.
\<close>

definition bindE :: "error + 'x \<Rightarrow> ('x \<Rightarrow> error + 'y) \<Rightarrow> error + 'y" where
  "bindE m f = (case m of Inl e \<Rightarrow> Inl e | Inr x \<Rightarrow> f x)"

record ('o, 'h, 'act, 'a) rollout_storage =
  obs :: "'o list list"
  recurrent_hidden_states :: "'h list list"
  rewards :: "'a list list"
  value_preds :: "'a list list"
  returns :: "'a list list"
  action_log_probs :: "'a list list"
  actions :: "'act list list"
  done_masks :: "'a list list"
  time_limit_masks :: "'a list list"
  rollout_steps :: nat
  step :: nat
  num_processes :: nat

datatype action_space = Discrete nat | Box "nat list" | OtherSpace

text \<open>
  \<open>__init__\<close>: \<open>torch.zeros\<close> for every tensor but the two masks, which are \<open>torch.ones\<close>.
  The zero observation, recurrent state and action entry (their shapes are \<open>obs_shape\<close>,
  \<open>recurrent_state_size\<close> and the action shape) are the \<open>0\<close> of their types. For a \<open>Box\<close>
  the action shape is \<open>action_space.shape[0]\<close>, an IndexError on the empty shape; any other
  space than \<open>Discrete\<close> and \<open>Box\<close> is not implemented.
\<close>

definition rollout_storage_init ::
  "nat \<Rightarrow> nat \<Rightarrow> action_space \<Rightarrow>
   error + ('o::zero, 'h::zero, 'act::zero, 'a::{zero,one}) rollout_storage" where
  "rollout_storage_init T N action_space =
     (let buffer =
            \<lparr> obs = replicate (T + 1) (replicate N 0),
              recurrent_hidden_states = replicate (T + 1) (replicate N 0),
              rewards = replicate T (replicate N 0),
              value_preds = replicate (T + 1) (replicate N 0),
              returns = replicate (T + 1) (replicate N 0),
              action_log_probs = replicate T (replicate N 0),
              actions = replicate T (replicate N 0),
              done_masks = replicate (T + 1) (replicate N 1),
              time_limit_masks = replicate (T + 1) (replicate N 1),
              rollout_steps = T,
              step = 0,
              num_processes = N \<rparr>
      in case action_space of
           Discrete n \<Rightarrow> Inr buffer
         | Box shape \<Rightarrow> (if shape = [] then Inl IndexError else Inr buffer)
         | OtherSpace \<Rightarrow> Inl NotImplementedError)"

text \<open>The lengths along the time dimension, and the full shapes.\<close>

definition time_shaped :: "nat \<Rightarrow> ('o, 'h, 'act, 'a) rollout_storage \<Rightarrow> bool" where
  "time_shaped T s \<longleftrightarrow>
     rollout_steps s = T \<and>
     length (obs s) = T + 1 \<and> length (recurrent_hidden_states s) = T + 1 \<and>
     length (rewards s) = T \<and> length (value_preds s) = T + 1 \<and>
     length (returns s) = T + 1 \<and> length (action_log_probs s) = T \<and>
     length (actions s) = T \<and> length (done_masks s) = T + 1 \<and>
     length (time_limit_masks s) = T + 1"

definition rows :: "nat \<Rightarrow> 'x list list \<Rightarrow> bool" where
  "rows N xs \<longleftrightarrow> list_all (\<lambda>r. length r = N) xs"

definition shaped :: "nat \<Rightarrow> nat \<Rightarrow> ('o, 'h, 'act, 'a) rollout_storage \<Rightarrow> bool" where
  "shaped T N s \<longleftrightarrow>
     time_shaped T s \<and>
     rows N (obs s) \<and> rows N (recurrent_hidden_states s) \<and> rows N (rewards s) \<and>
     rows N (value_preds s) \<and> rows N (returns s) \<and> rows N (action_log_probs s) \<and>
     rows N (actions s) \<and> rows N (done_masks s) \<and> rows N (time_limit_masks s)"

subsection \<open>\<open>insert\<close>\<close>

text \<open>
  \<open>dst.copy_(src)\<close> along the environment dimension: \<open>src\<close> is copied when it has as many rows
  as \<open>dst\<close>, broadcast when it has one row, and a RuntimeError otherwise. \<open>x[i].copy_(v)\<close>
  first takes \<open>x[i]\<close>, an IndexError beyond the first dimension.
\<close>

definition tensor_copy :: "'x list \<Rightarrow> 'x list \<Rightarrow> error + 'x list" where
  "tensor_copy dst src =
     (if length src = length dst then Inr src
      else if length src = 1 then Inr (replicate (length dst) (hd src))
      else Inl RuntimeError)"

definition copy_row :: "'x list list \<Rightarrow> nat \<Rightarrow> 'x list \<Rightarrow> error + 'x list list" where
  "copy_row x i v =
     (if length x \<le> i then Inl IndexError
      else bindE (tensor_copy (x ! i) v) (\<lambda>row. Inr (x[i := row])))"

text \<open>
  \<open>insert\<close>: the eight statements in their order, then the cursor;
  \<open>% self.rollout_steps\<close> raises ZeroDivisionError when it is 0. On an error the exception
  leaves the method; the model then returns the error alone.
\<close>

definition insert_storage ::
  "('o, 'h, 'act, 'a) rollout_storage \<Rightarrow> 'o list \<Rightarrow> 'h list \<Rightarrow> 'act list \<Rightarrow> 'a list \<Rightarrow>
   'a list \<Rightarrow> 'a list \<Rightarrow> 'a list \<Rightarrow> 'a list \<Rightarrow> error + ('o, 'h, 'act, 'a) rollout_storage" where
  "insert_storage s obs_in rhs_in actions_in action_log_probs_in value_preds_in rewards_in
       done_masks_in time_limit_masks_in =
     bindE (copy_row (obs s) (step s + 1) obs_in) (\<lambda>obs_new.
     bindE (copy_row (recurrent_hidden_states s) (step s + 1) rhs_in) (\<lambda>rhs_new.
     bindE (copy_row (actions s) (step s) actions_in) (\<lambda>actions_new.
     bindE (copy_row (action_log_probs s) (step s) action_log_probs_in) (\<lambda>action_log_probs_new.
     bindE (copy_row (value_preds s) (step s) value_preds_in) (\<lambda>value_preds_new.
     bindE (copy_row (rewards s) (step s) rewards_in) (\<lambda>rewards_new.
     bindE (copy_row (done_masks s) (step s + 1) done_masks_in) (\<lambda>done_masks_new.
     bindE (copy_row (time_limit_masks s) (step s + 1) time_limit_masks_in)
       (\<lambda>time_limit_masks_new.
     if rollout_steps s = 0 then Inl ZeroDivisionError
     else Inr (s\<lparr> obs := obs_new,
                  recurrent_hidden_states := rhs_new,
                  actions := actions_new,
                  action_log_probs := action_log_probs_new,
                  value_preds := value_preds_new,
                  rewards := rewards_new,
                  done_masks := done_masks_new,
                  time_limit_masks := time_limit_masks_new,
                  step := (step s + 1) mod rollout_steps s \<rparr>)))))))))"

text \<open>The arguments of one \<open>insert\<close> call, and a sequence of calls, as the training loop
  makes them during a rollout; the first exception ends the sequence.\<close>

record ('o, 'h, 'act, 'a) transition =
  t_obs :: "'o list"
  t_recurrent_hidden_states :: "'h list"
  t_actions :: "'act list"
  t_action_log_probs :: "'a list"
  t_value_preds :: "'a list"
  t_rewards :: "'a list"
  t_done_masks :: "'a list"
  t_time_limit_masks :: "'a list"

definition insert_transition ::
  "('o, 'h, 'act, 'a) rollout_storage \<Rightarrow> ('o, 'h, 'act, 'a) transition \<Rightarrow>
   error + ('o, 'h, 'act, 'a) rollout_storage" where
  "insert_transition s x =
     insert_storage s (t_obs x) (t_recurrent_hidden_states x) (t_actions x)
       (t_action_log_probs x) (t_value_preds x) (t_rewards x) (t_done_masks x)
       (t_time_limit_masks x)"

text \<open>The arguments of an \<open>insert\<close> call have the leading dimension \<open>N\<close>.\<close>

definition transition_shaped :: "nat \<Rightarrow> ('o, 'h, 'act, 'a) transition \<Rightarrow> bool" where
  "transition_shaped N x \<longleftrightarrow>
     length (t_obs x) = N \<and> length (t_recurrent_hidden_states x) = N \<and>
     length (t_actions x) = N \<and> length (t_action_log_probs x) = N \<and>
     length (t_value_preds x) = N \<and> length (t_rewards x) = N \<and>
     length (t_done_masks x) = N \<and> length (t_time_limit_masks x) = N"

fun insert_all ::
  "('o, 'h, 'act, 'a) rollout_storage \<Rightarrow> ('o, 'h, 'act, 'a) transition list \<Rightarrow>
   error + ('o, 'h, 'act, 'a) rollout_storage" where
  "insert_all s [] = Inr s"
| "insert_all s (x # xs) =
     (case insert_transition s x of Inl e \<Rightarrow> Inl e | Inr s' \<Rightarrow> insert_all s' xs)"

subsection \<open>\<open>compute_returns\<close>\<close>

text \<open>
  Arithmetic on rows is elementwise. A Python number meets a row by broadcasting:
  \<open>c * row\<close>, \<open>row * c\<close> and \<open>1 - row\<close>.
\<close>

definition t_add :: "'a::plus list \<Rightarrow> 'a list \<Rightarrow> 'a list" where
  "t_add xs ys = map2 (+) xs ys"

definition t_sub :: "'a::minus list \<Rightarrow> 'a list \<Rightarrow> 'a list" where
  "t_sub xs ys = map2 (-) xs ys"

definition t_mul :: "'a::times list \<Rightarrow> 'a list \<Rightarrow> 'a list" where
  "t_mul xs ys = map2 (*) xs ys"

definition s_mul :: "'a::times \<Rightarrow> 'a list \<Rightarrow> 'a list" where
  "s_mul c xs = map (\<lambda>x. c * x) xs"

definition t_mul_s :: "'a::times list \<Rightarrow> 'a \<Rightarrow> 'a list" where
  "t_mul_s xs c = map (\<lambda>x. x * c) xs"

definition one_minus :: "'a::{one,minus} list \<Rightarrow> 'a list" where
  "one_minus xs = map (\<lambda>x. 1 - x) xs"

text \<open>\<open>gae\<close> starts as the Python number 0 and is a row from the first iteration on.\<close>

datatype 'a gae_acc = Scalar 'a | Row "'a list"

fun t_mul_acc :: "'a::times list \<Rightarrow> 'a gae_acc \<Rightarrow> 'a list" where
  "t_mul_acc xs (Scalar c) = t_mul_s xs c"
| "t_mul_acc xs (Row ys) = t_mul xs ys"

text \<open>\<open>x[-1] = v\<close>: the last row of a tensor, which has \<open>T + 1 \<ge> 1\<close> rows.\<close>

definition set_last :: "'x list \<Rightarrow> 'x \<Rightarrow> 'x list" where
  "set_last xs v = xs[length xs - 1 := v]"

text \<open>
  The four loops \<open>for step in reversed(range(self.rewards.size(0)))\<close>. The first argument
  counts the iterations left: \<open>Suc i\<close> runs the body at \<open>step = i\<close> and goes on below it.
\<close>

fun gae_ptl_loop ::
  "'a::{plus,minus,times} \<Rightarrow> 'a \<Rightarrow> nat \<Rightarrow> 'a gae_acc \<Rightarrow> ('o, 'h, 'act, 'a) rollout_storage \<Rightarrow>
   ('o, 'h, 'act, 'a) rollout_storage" where
  "gae_ptl_loop gamma gae_lambda 0 gae s = s"
| "gae_ptl_loop gamma gae_lambda (Suc i) gae s =
     (let delta = t_sub (t_add (rewards s ! i)
                    (t_mul (s_mul gamma (value_preds s ! (i + 1))) (done_masks s ! (i + 1))))
                    (value_preds s ! i);
          gae1 = t_add delta
                   (t_mul_acc (s_mul (gamma * gae_lambda) (done_masks s ! (i + 1))) gae);
          gae2 = t_mul gae1 (time_limit_masks s ! (i + 1))
      in gae_ptl_loop gamma gae_lambda i (Row gae2)
           (s\<lparr>returns := (returns s)[i := t_add gae2 (value_preds s ! i)]\<rparr>))"

fun returns_ptl_loop ::
  "'a::{one,plus,minus,times} \<Rightarrow> nat \<Rightarrow> ('o, 'h, 'act, 'a) rollout_storage \<Rightarrow>
   ('o, 'h, 'act, 'a) rollout_storage" where
  "returns_ptl_loop gamma 0 s = s"
| "returns_ptl_loop gamma (Suc i) s =
     returns_ptl_loop gamma i
       (s\<lparr>returns := (returns s)[i :=
            t_add (t_mul (t_add (t_mul (t_mul_s (returns s ! (i + 1)) gamma)
                                     (done_masks s ! (i + 1)))
                                (rewards s ! i))
                         (time_limit_masks s ! (i + 1)))
                  (t_mul (one_minus (time_limit_masks s ! (i + 1)))
                         (value_preds s ! i))]\<rparr>)"

fun gae_loop ::
  "'a::{plus,minus,times} \<Rightarrow> 'a \<Rightarrow> nat \<Rightarrow> 'a gae_acc \<Rightarrow> ('o, 'h, 'act, 'a) rollout_storage \<Rightarrow>
   ('o, 'h, 'act, 'a) rollout_storage" where
  "gae_loop gamma gae_lambda 0 gae s = s"
| "gae_loop gamma gae_lambda (Suc i) gae s =
     (let delta = t_sub (t_add (rewards s ! i)
                    (t_mul (s_mul gamma (value_preds s ! (i + 1))) (done_masks s ! (i + 1))))
                    (value_preds s ! i);
          gae1 = t_add delta
                   (t_mul_acc (s_mul (gamma * gae_lambda) (done_masks s ! (i + 1))) gae)
      in gae_loop gamma gae_lambda i (Row gae1)
           (s\<lparr>returns := (returns s)[i := t_add gae1 (value_preds s ! i)]\<rparr>))"

fun returns_loop ::
  "'a::{plus,times} \<Rightarrow> nat \<Rightarrow> ('o, 'h, 'act, 'a) rollout_storage \<Rightarrow>
   ('o, 'h, 'act, 'a) rollout_storage" where
  "returns_loop gamma 0 s = s"
| "returns_loop gamma (Suc i) s =
     returns_loop gamma i
       (s\<lparr>returns := (returns s)[i :=
            t_add (t_mul (t_mul_s (returns s ! (i + 1)) gamma) (done_masks s ! (i + 1)))
                  (rewards s ! i)]\<rparr>)"

definition compute_returns ::
  "('o, 'h, 'act, 'a::{zero,one,plus,minus,times}) rollout_storage \<Rightarrow> 'a list \<Rightarrow> bool \<Rightarrow>
   'a \<Rightarrow> 'a \<Rightarrow> bool \<Rightarrow> ('o, 'h, 'act, 'a) rollout_storage" where
  "compute_returns s next_value use_gae gamma gae_lambda use_proper_time_limits =
     (if use_proper_time_limits then
        if use_gae then
          gae_ptl_loop gamma gae_lambda (length (rewards s)) (Scalar 0)
            (s\<lparr>value_preds := set_last (value_preds s) next_value\<rparr>)
        else
          returns_ptl_loop gamma (length (rewards s))
            (s\<lparr>returns := set_last (returns s) next_value\<rparr>)
      else
        if use_gae then
          gae_loop gamma gae_lambda (length (rewards s)) (Scalar 0)
            (s\<lparr>value_preds := set_last (value_preds s) next_value\<rparr>)
        else
          returns_loop gamma (length (rewards s))
            (s\<lparr>returns := set_last (returns s) next_value\<rparr>))"

text \<open>
  The recursion the specification gives for generalised advantage estimation with proper
  time limits, for one environment \<open>e\<close>: the advantage accumulated at step \<open>t\<close>, which is 0
  past the last step \<open>T - 1\<close>; \<open>r\<close>, \<open>v\<close>, \<open>d\<close>, \<open>m\<close> are the rewards, the value predictions
  (with the bootstrap value in slot \<open>T\<close>), the done masks and the time-limit masks.
\<close>

function gae_ptl_spec ::
  "'a::{zero,plus,minus,times} \<Rightarrow> 'a \<Rightarrow> 'a list list \<Rightarrow> 'a list list \<Rightarrow> 'a list list \<Rightarrow>
   'a list list \<Rightarrow> nat \<Rightarrow> nat \<Rightarrow> 'a" where
  "gae_ptl_spec gamma gae_lambda r v d m t e =
     (if length r \<le> t then 0
      else
        let delta = r ! t ! e + gamma * v ! (t + 1) ! e * d ! (t + 1) ! e - v ! t ! e;
            gae = delta + gamma * gae_lambda * d ! (t + 1) ! e
                          * gae_ptl_spec gamma gae_lambda r v d m (t + 1) e
        in gae * m ! (t + 1) ! e)"
  by pat_completeness auto
termination
  by (relation "measure (\<lambda>(gamma, gae_lambda, r, v, d, m, t, e). length r - t)") auto

declare gae_ptl_spec.simps [simp del]

text \<open>The accumulator agrees with \<open>f\<close> on the environments below \<open>N\<close>.\<close>

definition acc_ok :: "nat \<Rightarrow> 'a gae_acc \<Rightarrow> (nat \<Rightarrow> 'a) \<Rightarrow> bool" where
  "acc_ok N gae f \<longleftrightarrow>
     (case gae of Scalar c \<Rightarrow> (\<forall>e<N. c = f e)
                | Row ys \<Rightarrow> length ys = N \<and> (\<forall>e<N. ys ! e = f e))"


subsection \<open>The minibatch generators\<close>

text \<open>
  A generator is modelled by what one full consumption of it gives: the minibatches it
  yields, in order, and the exception that ends it, if one does. (Python runs the body of
  a generator function only when the first item is asked for; the model does not tell the
  call from the first \<open>next\<close>.) The random permutation that torch draws is an argument.
\<close>

record ('o, 'h, 'act, 'a) minibatch =
  obs_batch :: "'o list"
  recurrent_hidden_states_batch :: "'h list"
  actions_batch :: "'act list"
  value_preds_batch :: "'a list"
  return_batch :: "'a list"
  masks_batch :: "'a list"
  old_action_log_probs_batch :: "'a list"
  adv_targ :: "'a list option"

type_synonym ('o, 'h, 'act, 'a) generated = "('o, 'h, 'act, 'a) minibatch list \<times> error option"

text \<open>\<open>x[indices]\<close> on a flattened tensor: IndexError on an index out of range.\<close>

definition index_select :: "'x list \<Rightarrow> nat list \<Rightarrow> error + 'x list" where
  "index_select xs indices =
     (if list_all (\<lambda>i. i < length xs) indices then Inr (map (\<lambda>i. xs ! i) indices)
      else Inl IndexError)"

text \<open>
  The two samplers of \<open>torch.utils.data.sampler\<close>. \<open>torch.randperm(n)\<close> returns a
  permutation of \<open>0, ..., n - 1\<close>; \<open>SubsetRandomSampler(indices)\<close> yields \<open>indices[i]\<close> for
  \<open>i\<close> in \<open>randperm(len(indices))\<close>; \<open>BatchSampler(sampler, batch_size, drop_last)\<close>
  collects what the sampler yields into lists of \<open>batch_size\<close>, and yields a shorter last
  list only when \<open>drop_last\<close> is false.
\<close>

definition randperm :: "nat \<Rightarrow> nat list \<Rightarrow> bool" where
  "randperm n p \<longleftrightarrow> length p = n \<and> distinct p \<and> list_all (\<lambda>i. i < n) p"

definition SubsetRandomSampler :: "nat list \<Rightarrow> nat list \<Rightarrow> nat list" where
  "SubsetRandomSampler indices perm = map (\<lambda>i. indices ! i) perm"

fun batch_loop :: "nat \<Rightarrow> bool \<Rightarrow> nat list \<Rightarrow> nat list \<Rightarrow> nat list list" where
  "batch_loop batch_size drop_last batch [] =
     (if 0 < length batch \<and> \<not> drop_last then [batch] else [])"
| "batch_loop batch_size drop_last batch (idx # rest) =
     (if length (batch @ [idx]) = batch_size
      then (batch @ [idx]) # batch_loop batch_size drop_last [] rest
      else batch_loop batch_size drop_last (batch @ [idx]) rest)"

definition BatchSampler :: "nat list \<Rightarrow> nat \<Rightarrow> bool \<Rightarrow> nat list list" where
  "BatchSampler sampler batch_size drop_last = batch_loop batch_size drop_last [] sampler"

text \<open>
  The body of the loop \<open>for indices in sampler\<close> of \<open>feed_forward_generator\<close>: \<open>x[:-1]\<close> is
  \<open>butlast\<close>, \<open>.view(-1, ...)\<close> joins the rows of the time dimension.
\<close>

definition ff_minibatch ::
  "('o, 'h, 'act, 'a) rollout_storage \<Rightarrow> 'a list list option \<Rightarrow> nat list \<Rightarrow>
   error + ('o, 'h, 'act, 'a) minibatch" where
  "ff_minibatch s advantages indices =
     bindE (index_select (concat (butlast (obs s))) indices) (\<lambda>obs_b.
     bindE (index_select (concat (butlast (recurrent_hidden_states s))) indices) (\<lambda>rhs_b.
     bindE (index_select (concat (actions s)) indices) (\<lambda>actions_b.
     bindE (index_select (concat (butlast (value_preds s))) indices) (\<lambda>value_preds_b.
     bindE (index_select (concat (butlast (returns s))) indices) (\<lambda>return_b.
     bindE (index_select (concat (butlast (done_masks s))) indices) (\<lambda>masks_b.
     bindE (index_select (concat (action_log_probs s)) indices) (\<lambda>old_alp_b.
     bindE (case advantages of
              None \<Rightarrow> Inr None
            | Some adv \<Rightarrow> bindE (index_select (concat adv) indices) (\<lambda>a. Inr (Some a)))
       (\<lambda>adv_b.
     Inr \<lparr> obs_batch = obs_b, recurrent_hidden_states_batch = rhs_b,
           actions_batch = actions_b, value_preds_batch = value_preds_b,
           return_batch = return_b, masks_batch = masks_b,
           old_action_log_probs_batch = old_alp_b, adv_targ = adv_b \<rparr>))))))))"

fun ff_yield ::
  "('o, 'h, 'act, 'a) rollout_storage \<Rightarrow> 'a list list option \<Rightarrow> nat list list \<Rightarrow>
   ('o, 'h, 'act, 'a) generated" where
  "ff_yield s advantages [] = ([], None)"
| "ff_yield s advantages (indices # rest) =
     (case ff_minibatch s advantages indices of
        Inl e \<Rightarrow> ([], Some e)
      | Inr mb \<Rightarrow> (case ff_yield s advantages rest of (mbs, err) \<Rightarrow> (mb # mbs, err)))"

text \<open>
  The variable \<open>sampler\<close> of \<open>feed_forward_generator\<close>, iterated: the batches of indices
  into the \<open>batch_size\<close> flattened transitions.
\<close>

definition ff_sampler :: "nat \<Rightarrow> nat \<Rightarrow> nat list \<Rightarrow> nat list list" where
  "ff_sampler batch_size minibatch_size perm =
     BatchSampler (SubsetRandomSampler [0..<batch_size] perm) minibatch_size True"

text \<open>
  \<open>feed_forward_generator\<close>. With \<open>minibatch_size\<close> None, \<open>batch_size >= num_minibatches\<close>
  raises TypeError when \<open>num_minibatches\<close> is None too, the \<open>assert\<close> fails when it is
  larger, and \<open>//\<close> raises ZeroDivisionError when it is 0. \<open>BatchSampler\<close> raises ValueError
  for a batch size that is not positive.
\<close>

definition feed_forward_generator ::
  "('o, 'h, 'act, 'a) rollout_storage \<Rightarrow> 'a list list option \<Rightarrow> int option \<Rightarrow> int option \<Rightarrow>
   nat list \<Rightarrow> ('o, 'h, 'act, 'a) generated" where
  "feed_forward_generator s advantages num_minibatches minibatch_size perm =
     (let num_steps = length (rewards s);
          batch_size = num_processes s * num_steps
      in case (case minibatch_size of
                 Some b \<Rightarrow> Inr b
               | None \<Rightarrow>
                   (case num_minibatches of
                      None \<Rightarrow> Inl TypeError
                    | Some m \<Rightarrow>
                        if \<not> int batch_size \<ge> m then Inl AssertionError
                        else if m = 0 then Inl ZeroDivisionError
                        else Inr (int batch_size div m))) of
           Inl e \<Rightarrow> ([], Some e)
         | Inr b \<Rightarrow>
             if b \<le> 0 then ([], Some ValueError)
             else ff_yield s advantages (ff_sampler batch_size (nat b) perm))"

text \<open>
  \<open>recurrent_generator\<close>. \<open>range(0, n, k)\<close> raises ValueError for \<open>k = 0\<close> and is empty for
  \<open>k < 0\<close>. A minibatch takes the environments \<open>perm[start_ind + offset]\<close>, IndexError past
  the end of \<open>perm\<close>; \<open>x[:, ind]\<close> is column \<open>ind\<close> (below \<open>N\<close>, \<open>perm\<close> being a permutation);
  \<open>torch.stack(cols, 1)\<close> followed by \<open>_flatten_helper(T, N, _)\<close> lists, for each step in
  turn, the entries of the chosen environments.
\<close>

definition range_step :: "nat \<Rightarrow> int \<Rightarrow> error + nat list" where
  "range_step n k =
     (if k = 0 then Inl ValueError
      else if k < 0 then Inr []
      else Inr (map (\<lambda>j. j * nat k) [0..<(n + nat k - 1) div nat k]))"

definition column :: "'x list list \<Rightarrow> nat \<Rightarrow> 'x list" where
  "column xs ind = map (\<lambda>row. row ! ind) xs"

definition stack_flatten :: "nat \<Rightarrow> 'x list list \<Rightarrow> 'x list" where
  "stack_flatten T cols = concat (map (\<lambda>t. map (\<lambda>col. col ! t) cols) [0..<T])"

definition rg_minibatch ::
  "('o, 'h, 'act, 'a) rollout_storage \<Rightarrow> 'a list list \<Rightarrow> nat list \<Rightarrow> nat \<Rightarrow> nat \<Rightarrow>
   error + ('o, 'h, 'act, 'a) minibatch" where
  "rg_minibatch s advantages perm num_envs_per_batch start_ind =
     bindE (index_select perm (map (\<lambda>offset. start_ind + offset) [0..<num_envs_per_batch]))
       (\<lambda>inds.
     let T = rollout_steps s in
     Inr \<lparr> obs_batch = stack_flatten T (map (column (butlast (obs s))) inds),
           recurrent_hidden_states_batch =
             map (\<lambda>ind. hd (column (take 1 (recurrent_hidden_states s)) ind)) inds,
           actions_batch = stack_flatten T (map (column (actions s)) inds),
           value_preds_batch = stack_flatten T (map (column (butlast (value_preds s))) inds),
           return_batch = stack_flatten T (map (column (butlast (returns s))) inds),
           masks_batch = stack_flatten T (map (column (butlast (done_masks s))) inds),
           old_action_log_probs_batch =
             stack_flatten T (map (column (action_log_probs s)) inds),
           adv_targ = Some (stack_flatten T (map (column advantages) inds)) \<rparr>)"

fun rg_yield ::
  "('o, 'h, 'act, 'a) rollout_storage \<Rightarrow> 'a list list \<Rightarrow> nat list \<Rightarrow> nat \<Rightarrow> nat list \<Rightarrow>
   ('o, 'h, 'act, 'a) generated" where
  "rg_yield s advantages perm num_envs_per_batch [] = ([], None)"
| "rg_yield s advantages perm num_envs_per_batch (start_ind # rest) =
     (case rg_minibatch s advantages perm num_envs_per_batch start_ind of
        Inl e \<Rightarrow> ([], Some e)
      | Inr mb \<Rightarrow>
          (case rg_yield s advantages perm num_envs_per_batch rest of
             (mbs, err) \<Rightarrow> (mb # mbs, err)))"

definition recurrent_generator ::
  "('o, 'h, 'act, 'a) rollout_storage \<Rightarrow> 'a list list \<Rightarrow> int \<Rightarrow> nat list \<Rightarrow>
   ('o, 'h, 'act, 'a) generated" where
  "recurrent_generator s advantages num_minibatches perm =
     (if \<not> int (num_processes s) \<ge> num_minibatches then ([], Some AssertionError)
      else if num_minibatches = 0 then ([], Some ZeroDivisionError)
      else
        let num_envs_per_batch = int (num_processes s) div num_minibatches
        in case range_step (num_processes s) num_envs_per_batch of
             Inl e \<Rightarrow> ([], Some e)
           | Inr starts \<Rightarrow> rg_yield s advantages perm (nat num_envs_per_batch) starts)"


text \<open>The shape of the \<open>advantages\<close> argument: None, or a tensor \<open>[T, N, 1]\<close>.\<close>

definition adv_shaped :: "nat \<Rightarrow> nat \<Rightarrow> 'a list list option \<Rightarrow> bool" where
  "adv_shaped T N advantages \<longleftrightarrow>
     (case advantages of None \<Rightarrow> True | Some adv \<Rightarrow> length adv = T \<and> rows N adv)"

subsection \<open>A small buffer: two steps, two environments\<close>

definition example_storage :: "(int, int, int, int) rollout_storage" where
  "example_storage =
     \<lparr> obs = [[10, 11], [20, 21], [30, 31]],
       recurrent_hidden_states = [[100, 101], [200, 201], [300, 301]],
       rewards = [[1, 2], [3, 4]],
       value_preds = [[5, 6], [7, 8], [9, 10]],
       returns = [[0, 0], [0, 0], [41, 42]],
       action_log_probs = [[0, 0], [0, 0]],
       actions = [[0, 1], [1, 0]],
       done_masks = [[1, 1], [1, 0], [1, 1]],
       time_limit_masks = [[1, 1], [1, 1], [0, 1]],
       rollout_steps = 2,
       step = 0,
       num_processes = 2 \<rparr>"

text \<open>One step, four environments.\<close>

definition example_storage4 :: "(int, int, int, int) rollout_storage" where
  "example_storage4 =
     \<lparr> obs = [[10, 11, 12, 13], [20, 21, 22, 23]],
       recurrent_hidden_states = [[100, 101, 102, 103], [200, 201, 202, 203]],
       rewards = [[1, 2, 3, 4]],
       value_preds = [[5, 6, 7, 8], [9, 10, 11, 12]],
       returns = [[0, 0, 0, 0], [0, 0, 0, 0]],
       action_log_probs = [[0, 0, 0, 0]],
       actions = [[0, 1, 0, 1]],
       done_masks = [[1, 1, 1, 1], [1, 1, 1, 1]],
       time_limit_masks = [[1, 1, 1, 1], [1, 1, 1, 1]],
       rollout_steps = 1,
       step = 0,
       num_processes = 4 \<rparr>"

definition example_transition :: "int \<Rightarrow> (int, int, int, int) transition" where
  "example_transition k =
     \<lparr> t_obs = [k, k + 1], t_recurrent_hidden_states = [k + 2, k + 3],
       t_actions = [0, 0], t_action_log_probs = [0, 0], t_value_preds = [k + 4, k + 5],
       t_rewards = [1, 1], t_done_masks = [1, 1], t_time_limit_masks = [1, 1] \<rparr>"

section \<open>The learner of \<open>core/learners/ppo.py\<close>\<close>

text \<open>
  Here the numbers are reals: Python's and torch's floating-point numbers, without rounding
  and infinities; where torch computes NaN the model ends with \<open>NotANumber\<close>. The policy
  network and the optimizer are outside the repository's learner; the model takes them as
  functions. The policy, together with the state of the optimizer, is a value of type
  \<open>'p\<close>.
\<close>

definition OPT_ACTOR_PARAMS :: string where
  "OPT_ACTOR_PARAMS = ''params:actor''"

definition OPT_CRITIC_PARAMS :: string where
  "OPT_CRITIC_PARAMS = ''params:critic''"

text \<open>A parameter group of the optimizer, without the parameters themselves.\<close>

record param_group =
  pg_name :: string
  pg_lr :: real
  pg_eps :: "real option"

record 'p PPO =
  actor_critic :: 'p
  clip_param :: real
  num_epochs :: int
  num_minibatches :: int
  value_loss_coef :: real
  entropy_coef :: real
  max_grad_norm :: "real option"
  use_clipped_value_loss :: bool
  initial_actor_lr :: real
  param_groups :: "param_group list"

definition PPO_init ::
  "'p \<Rightarrow> real \<Rightarrow> int \<Rightarrow> int \<Rightarrow> real \<Rightarrow> real \<Rightarrow> real \<Rightarrow> real \<Rightarrow> real option \<Rightarrow> real option \<Rightarrow>
   bool \<Rightarrow> 'p PPO" where
  "PPO_init ac clip epochs minibatches ent_coef val_coef actor_lr critic_lr eps grad_norm
       clipped =
     \<lparr> actor_critic = ac, clip_param = clip, num_epochs = epochs,
       num_minibatches = minibatches, value_loss_coef = val_coef, entropy_coef = ent_coef,
       max_grad_norm = grad_norm, use_clipped_value_loss = clipped,
       initial_actor_lr = actor_lr,
       param_groups =
         [\<lparr>pg_name = OPT_ACTOR_PARAMS, pg_lr = actor_lr, pg_eps = eps\<rparr>,
          \<lparr>pg_name = OPT_CRITIC_PARAMS, pg_lr = critic_lr, pg_eps = eps\<rparr>] \<rparr>"

subsection \<open>\<open>update_linear_schedule\<close>\<close>

text \<open>
  The loop over \<open>self.optimizer.param_groups\<close>. \<open>current_epoch / float(total_epochs)\<close>
  raises ZeroDivisionError for \<open>total_epochs = 0\<close>; it is evaluated when the loop reaches
  a group named \<open>OPT_ACTOR_PARAMS\<close>.
\<close>

fun schedule_groups :: "real \<Rightarrow> int \<Rightarrow> int \<Rightarrow> param_group list \<Rightarrow> error + param_group list" where
  "schedule_groups lr0 current_epoch total_epochs [] = Inr []"
| "schedule_groups lr0 current_epoch total_epochs (g # gs) =
     (if pg_name g \<noteq> OPT_ACTOR_PARAMS
      then bindE (schedule_groups lr0 current_epoch total_epochs gs) (\<lambda>gs'. Inr (g # gs'))
      else if total_epochs = 0 then Inl ZeroDivisionError
      else
        let lr = lr0 - lr0 * (real_of_int current_epoch / real_of_int total_epochs)
        in bindE (schedule_groups lr0 current_epoch total_epochs gs)
             (\<lambda>gs'. Inr (g\<lparr>pg_lr := lr\<rparr> # gs')))"

definition update_linear_schedule :: "'p PPO \<Rightarrow> int \<Rightarrow> int \<Rightarrow> error + 'p PPO" where
  "update_linear_schedule ppo current_epoch total_epochs =
     bindE (schedule_groups (initial_actor_lr ppo) current_epoch total_epochs (param_groups ppo))
       (\<lambda>gs. Inr (ppo\<lparr>param_groups := gs\<rparr>))"

definition example_ppo :: "nat PPO" where
  "example_ppo =
     PPO_init 0 (1 / 5) 1 3 (1 / 100) (1 / 2) (3 / 10000) (1 / 1000)
       (Some (1 / 100000)) (Some (1 / 2)) True"

subsection \<open>\<open>update\<close>\<close>

text \<open>
  What the learner asks of its collaborators: the flag \<open>is_recurrent\<close> and
  \<open>evaluate_actions\<close> of the policy (values, action log-probabilities and the entropy, a
  number; the fourth result is ignored; the values and log-probabilities have one row for
  each row of the minibatch), and the gradient step: \<open>zero_grad\<close>, \<open>backward\<close> on the
  total loss, the clipping of the gradient norms and \<open>optimizer.step\<close>. The step is given
  the learner (the policy with the optimizer's state, the coefficients of the loss,
  \<open>max_grad_norm\<close>, the parameter groups) and the minibatch; it returns the next policy, or
  the exception the optimizer raises.
\<close>

record ('p, 'o, 'h, 'act) collaborators =
  is_recurrent :: "'p \<Rightarrow> bool"
  evaluate_actions ::
    "'p \<Rightarrow> 'o list \<Rightarrow> 'h list \<Rightarrow> real list \<Rightarrow> 'act list \<Rightarrow> real list \<times> real list \<times> real"
  gradient_step :: "'p PPO \<Rightarrow> ('o, 'h, 'act, real) minibatch \<Rightarrow> error + 'p"

text \<open>
  \<open>.mean()\<close> is NaN for a tensor without elements, \<open>.std()\<close> (with Bessel's correction) for
  a tensor with fewer than two: there the functions return None. \<open>clamp\<close> is torch's.
\<close>

definition mean :: "real list \<Rightarrow> real option" where
  "mean xs = (if xs = [] then None else Some (sum_list xs / real (length xs)))"

definition std :: "real list \<Rightarrow> real option" where
  "std xs =
     (if length xs < 2 then None
      else Some (sqrt (sum_list (map (\<lambda>x. (x - sum_list xs / real (length xs))\<^sup>2) xs)
                       / real (length xs - 1))))"

definition number :: "real option \<Rightarrow> error + real" where
  "number x = (case x of None \<Rightarrow> Inl NotANumber | Some r \<Rightarrow> Inr r)"

definition clamp :: "real \<Rightarrow> real \<Rightarrow> real \<Rightarrow> real" where
  "clamp x lo hi = min (max x lo) hi"

text \<open>
  The first two statements of \<open>update\<close>: the standardised advantages. A tensor without
  elements stays as it is, whatever its mean.
\<close>

definition normalized_advantages ::
  "('o, 'h, 'act, real) rollout_storage \<Rightarrow> error + real list list" where
  "normalized_advantages rollouts =
     (let advantages = map2 t_sub (butlast (returns rollouts)) (butlast (value_preds rollouts))
      in if concat advantages = [] then Inr advantages
         else
           bindE (number (mean (concat advantages))) (\<lambda>m.
           bindE (number (std (concat advantages))) (\<lambda>sd.
           Inr (map (map (\<lambda>x. (x - m) / (sd + 1 / 100000))) advantages))))"

text \<open>
  The losses of one sample: \<open>(value_loss, action_loss, dist_entropy)\<close>. \<open>adv_targ\<close> is None
  only when the generator was given no advantages; \<open>ratio * None\<close> is a TypeError.
\<close>

definition sample_losses ::
  "'p PPO \<Rightarrow> ('p, 'o, 'h, 'act) collaborators \<Rightarrow> ('o, 'h, 'act, real) minibatch \<Rightarrow>
   error + real \<times> real \<times> real" where
  "sample_losses ppo ext sample =
     (case evaluate_actions ext (actor_critic ppo) (obs_batch sample)
             (recurrent_hidden_states_batch sample) (masks_batch sample) (actions_batch sample) of
        (values_b, action_log_probs_b, dist_entropy) \<Rightarrow>
          (case adv_targ sample of
             None \<Rightarrow> Inl TypeError
           | Some adv \<Rightarrow>
               let ratio = map exp (t_sub action_log_probs_b (old_action_log_probs_batch sample));
                   surr1 = t_mul ratio adv;
                   surr2 = t_mul (map (\<lambda>r. clamp r (1 - clip_param ppo) (1 + clip_param ppo)) ratio)
                             adv
               in bindE (number (mean (map2 min surr1 surr2))) (\<lambda>surr_mean.
                  let action_loss = - surr_mean
                  in bindE
                       (if use_clipped_value_loss ppo then
                          let value_pred_clipped =
                                t_add (value_preds_batch sample)
                                  (map (\<lambda>d. clamp d (- clip_param ppo) (clip_param ppo))
                                     (t_sub values_b (value_preds_batch sample)));
                              value_losses =
                                map (\<lambda>d. d\<^sup>2) (t_sub values_b (return_batch sample));
                              value_losses_clipped =
                                map (\<lambda>d. d\<^sup>2) (t_sub value_pred_clipped (return_batch sample))
                          in number (mean (map2 max value_losses value_losses_clipped))
                        else
                          number (mean (map (\<lambda>d. d\<^sup>2) (t_sub (return_batch sample) values_b))))
                       (\<lambda>losses_mean.
                  Inr (0.5 * losses_mean, action_loss, dist_entropy)))))"

text \<open>
  The loop \<open>for sample in data_generator\<close> over the samples a generator yields; the state
  is the learner (its policy changes at every step) and the three running sums.
  \<open>nn.utils.clip_grad_norm_(_, self.max_grad_norm)\<close> raises TypeError when
  \<open>max_grad_norm\<close> is None; the sums are increased after the optimizer's step.
\<close>

fun update_samples ::
  "('p, 'o, 'h, 'act) collaborators \<Rightarrow> ('o, 'h, 'act, real) minibatch list \<Rightarrow>
   'p PPO \<times> real \<times> real \<times> real \<Rightarrow> error + 'p PPO \<times> real \<times> real \<times> real" where
  "update_samples ext [] acc = Inr acc"
| "update_samples ext (sample # rest) (ppo, value_loss_epoch, action_loss_epoch, dist_entropy_epoch) =
     bindE (sample_losses ppo ext sample) (\<lambda>(value_loss, action_loss, dist_entropy).
       case max_grad_norm ppo of
         None \<Rightarrow> Inl TypeError
       | Some max_norm \<Rightarrow>
           bindE (gradient_step ext ppo sample) (\<lambda>policy.
             update_samples ext rest
               (ppo\<lparr>actor_critic := policy\<rparr>,
                value_loss_epoch + value_loss,
                action_loss_epoch + action_loss,
                dist_entropy_epoch + dist_entropy)))"

text \<open>
  The loop \<open>for e in range(self.num_epochs)\<close>, \<open>e\<close> counting up from its second argument;
  \<open>perms e\<close> is the permutation torch draws in epoch \<open>e\<close>. An exception of the generator
  leaves \<open>update\<close> after the samples yielded before it.
\<close>

fun update_epochs ::
  "('p, 'o, 'h, 'act) collaborators \<Rightarrow> ('o, 'h, 'act, real) rollout_storage \<Rightarrow> real list list \<Rightarrow>
   (nat \<Rightarrow> nat list) \<Rightarrow> nat \<Rightarrow> nat \<Rightarrow> 'p PPO \<times> real \<times> real \<times> real \<Rightarrow>
   error + 'p PPO \<times> real \<times> real \<times> real" where
  "update_epochs ext rollouts advantages perms 0 e acc = Inr acc"
| "update_epochs ext rollouts advantages perms (Suc n) e acc =
     (let ppo = fst acc;
          data_generator =
            (if is_recurrent ext (actor_critic ppo)
             then recurrent_generator rollouts advantages (num_minibatches ppo) (perms e)
             else feed_forward_generator rollouts (Some advantages) (Some (num_minibatches ppo))
                    None (perms e))
      in bindE (update_samples ext (fst data_generator) acc) (\<lambda>acc'.
           case snd data_generator of
             Some err \<Rightarrow> Inl err
           | None \<Rightarrow> update_epochs ext rollouts advantages perms n (Suc e) acc'))"

text \<open>
  \<open>update\<close>: the learner after the gradient steps and the three returned numbers. The
  division by \<open>num_updates\<close> raises ZeroDivisionError when it is 0.
\<close>

definition update ::
  "'p PPO \<Rightarrow> ('p, 'o, 'h, 'act) collaborators \<Rightarrow> ('o, 'h, 'act, real) rollout_storage \<Rightarrow>
   (nat \<Rightarrow> nat list) \<Rightarrow> error + 'p PPO \<times> real \<times> real \<times> real" where
  "update ppo ext rollouts perms =
     bindE (normalized_advantages rollouts) (\<lambda>advantages.
     bindE (update_epochs ext rollouts advantages perms (nat (num_epochs ppo)) 0 (ppo, 0, 0, 0))
       (\<lambda>(ppo', value_loss_epoch, action_loss_epoch, dist_entropy_epoch).
          let num_updates = num_epochs ppo * num_minibatches ppo
          in if num_updates = 0 then Inl ZeroDivisionError
             else Inr (ppo', value_loss_epoch / real_of_int num_updates,
                       action_loss_epoch / real_of_int num_updates,
                       dist_entropy_epoch / real_of_int num_updates)))"

text \<open>
  One step, four environments, with the returns equal to the value predictions (so every
  advantage is 0), and collaborators that count the gradient steps: the state of the
  policy is the number of steps taken; it values every observation at 2, gives every
  action the log-probability 0 and reports the entropy 1. The optimizer's step raises
  TypeError when a parameter group has no \<open>eps\<close>, as Adam's does.
\<close>

definition example_rollouts :: "(int, int, int, real) rollout_storage" where
  "example_rollouts =
     \<lparr> obs = [[10, 11, 12, 13], [20, 21, 22, 23]],
       recurrent_hidden_states = [[0, 0, 0, 0], [0, 0, 0, 0]],
       rewards = [[0, 0, 0, 0]],
       value_preds = [[0, 0, 0, 0], [0, 0, 0, 0]],
       returns = [[0, 0, 0, 0], [0, 0, 0, 0]],
       action_log_probs = [[0, 0, 0, 0]],
       actions = [[0, 1, 0, 1]],
       done_masks = [[1, 1, 1, 1], [1, 1, 1, 1]],
       time_limit_masks = [[1, 1, 1, 1], [1, 1, 1, 1]],
       rollout_steps = 1,
       step = 0,
       num_processes = 4 \<rparr>"

definition counting_collaborators :: "(nat, int, int, int) collaborators" where
  "counting_collaborators =
     \<lparr> is_recurrent = (\<lambda>p. False),
       evaluate_actions = (\<lambda>p obs_b rhs_b masks_b actions_b.
          (map (\<lambda>x. 2) obs_b, map (\<lambda>x. 0) obs_b, 1)),
       gradient_step = (\<lambda>ppo sample.
          if list_ex (\<lambda>g. pg_eps g = None) (param_groups ppo)
          then Inl TypeError else Inr (Suc (actor_critic ppo))) \<rparr>"

section \<open>Verification\<close>

subsection \<open>\<open>insert\<close>: the write cursor and the slots it touches\<close>

lemma rows_nth: "rows N xs \<Longrightarrow> t < length xs \<Longrightarrow> length (xs ! t) = N"
  by (simp add: rows_def list_all_length)

lemma rows_update: "rows N xs \<Longrightarrow> length row = N \<Longrightarrow> rows N (xs[i := row])"
  by (auto simp add: rows_def list_all_iff dest: subsetD [OF set_update_subset_insert])

lemma copy_row_ok:
  "rows N x \<Longrightarrow> i < length x \<Longrightarrow> length v = N \<Longrightarrow> copy_row x i v = Inr (x[i := v])"
  by (simp add: copy_row_def tensor_copy_def bindE_def rows_nth)

lemma copy_row_result:
  assumes "copy_row x i v = Inr y"
  shows "i < length x \<and> (\<exists>row. y = x[i := row])"
  using assms
  by (auto simp add: copy_row_def tensor_copy_def bindE_def split: if_splits)

lemma insert_storage_ok:
  assumes "shaped T N s" and "step s < T"
    and "length o_in = N" and "length h_in = N" and "length a_in = N" and "length l_in = N"
    and "length v_in = N" and "length r_in = N" and "length d_in = N" and "length m_in = N"
  shows "insert_storage s o_in h_in a_in l_in v_in r_in d_in m_in =
         Inr (s\<lparr> obs := (obs s)[step s + 1 := o_in],
                 recurrent_hidden_states := (recurrent_hidden_states s)[step s + 1 := h_in],
                 actions := (actions s)[step s := a_in],
                 action_log_probs := (action_log_probs s)[step s := l_in],
                 value_preds := (value_preds s)[step s := v_in],
                 rewards := (rewards s)[step s := r_in],
                 done_masks := (done_masks s)[step s + 1 := d_in],
                 time_limit_masks := (time_limit_masks s)[step s + 1 := m_in],
                 step := (step s + 1) mod T \<rparr>)"
proof -
  from assms(1) have ts: "time_shaped T s"
    and r: "rows N (obs s)" "rows N (recurrent_hidden_states s)" "rows N (actions s)"
      "rows N (action_log_probs s)" "rows N (value_preds s)" "rows N (rewards s)"
      "rows N (done_masks s)" "rows N (time_limit_masks s)"
    by (simp_all add: shaped_def)
  from ts assms(2) have l:
    "step s + 1 < length (obs s)" "step s + 1 < length (recurrent_hidden_states s)"
    "step s < length (actions s)" "step s < length (action_log_probs s)"
    "step s < length (value_preds s)" "step s < length (rewards s)"
    "step s + 1 < length (done_masks s)" "step s + 1 < length (time_limit_masks s)"
    "rollout_steps s = T" "T \<noteq> 0"
    by (simp_all add: time_shaped_def)
  show ?thesis
    unfolding insert_storage_def
    by (simp add: bindE_def l(9,10)
          copy_row_ok [OF r(1) l(1) assms(3), simplified]
          copy_row_ok [OF r(2) l(2) assms(4), simplified]
          copy_row_ok [OF r(3) l(3) assms(5)] copy_row_ok [OF r(4) l(4) assms(6)]
          copy_row_ok [OF r(5) l(5) assms(7)] copy_row_ok [OF r(6) l(6) assms(8)]
          copy_row_ok [OF r(7) l(7) assms(9), simplified]
          copy_row_ok [OF r(8) l(8) assms(10), simplified])
qed

lemma insert_transition_inv:
  assumes "shaped T N s" and "step s < T" and "transition_shaped N x"
  shows "\<exists>s'. insert_transition s x = Inr s' \<and> shaped T N s' \<and>
              step s' = (step s + 1) mod T \<and> step s' < T"
proof -
  from assms(2) have "0 < T" by simp
  moreover from assms(3) have x:
    "length (t_obs x) = N" "length (t_recurrent_hidden_states x) = N"
    "length (t_actions x) = N" "length (t_action_log_probs x) = N"
    "length (t_value_preds x) = N" "length (t_rewards x) = N"
    "length (t_done_masks x) = N" "length (t_time_limit_masks x) = N"
    by (simp_all add: transition_shaped_def)
  ultimately show ?thesis
    unfolding insert_transition_def insert_storage_ok [OF assms(1,2) x]
    using assms(1) x by (simp add: shaped_def time_shaped_def rows_update)
qed

lemma insert_all_cursor:
  assumes "shaped T N s" and "step s < T" and "list_all (transition_shaped N) xs"
  shows "\<exists>s'. insert_all s xs = Inr s' \<and> shaped T N s' \<and>
              step s' = (step s + length xs) mod T \<and> step s' < T"
  using assms
proof (induction xs arbitrary: s)
  case Nil
  then show ?case by simp
next
  case (Cons x xs)
  then have x: "transition_shaped N x" and xs: "list_all (transition_shaped N) xs"
    by simp_all
  from insert_transition_inv [OF Cons.prems(1,2) x] obtain s1 where
    s1: "insert_transition s x = Inr s1" "shaped T N s1"
        "step s1 = (step s + 1) mod T" "step s1 < T"
    by blast
  from Cons.IH [OF s1(2) s1(4) xs] obtain s' where
    s': "insert_all s1 xs = Inr s'" "shaped T N s'"
        "step s' = (step s1 + length xs) mod T" "step s' < T"
    by blast
  have "(step s1 + length xs) mod T = (step s + length (x # xs)) mod T"
    using s1(3) by (simp add: mod_simps)
  with s1(1) s' show ?case by simp
qed

lemma rollout_storage_init_shaped:
  assumes "rollout_storage_init T N space = Inr s"
  shows "shaped T N s \<and> num_processes s = N \<and> step s = 0"
  using assms
  by (cases space)
     (auto simp add: rollout_storage_init_def shaped_def time_shaped_def rows_def list_all_iff
        Let_def split: if_splits)


lemma shaped_example: "shaped 2 2 example_storage"
  by (simp add: shaped_def time_shaped_def rows_def example_storage_def)

lemma transition_shaped_example: "transition_shaped 2 (example_transition k)"
  by (simp add: transition_shaped_def example_transition_def)

text \<open>
  Claim C8. On a buffer with the shapes of \<open>__init__\<close> and its cursor below \<open>T\<close>, an
  \<open>insert\<close> whose arguments have the leading dimension \<open>N\<close> succeeds; it writes the
  observations, recurrent states, done masks and time-limit masks at index \<open>step + 1\<close> and
  the actions, action log-probabilities, value predictions and rewards at index \<open>step\<close>,
  and then sets \<open>step\<close> to \<open>(step + 1) mod T\<close>. After any sequence of such inserts the
  cursor is the start plus their number, modulo \<open>T\<close>: it is below \<open>T\<close> after every insert,
  and after exactly \<open>T\<close> inserts it is back at the value it started from.
\<close>

theorem insert_cursor_cycle:
  assumes "shaped T N s" and "step s < T"
    and "length o_in = N" and "length h_in = N" and "length a_in = N" and "length l_in = N"
    and "length v_in = N" and "length r_in = N" and "length d_in = N" and "length m_in = N"
  shows "(\<exists>s'. insert_storage s o_in h_in a_in l_in v_in r_in d_in m_in = Inr s' \<and>
            obs s' = (obs s)[step s + 1 := o_in] \<and>
            recurrent_hidden_states s' = (recurrent_hidden_states s)[step s + 1 := h_in] \<and>
            done_masks s' = (done_masks s)[step s + 1 := d_in] \<and>
            time_limit_masks s' = (time_limit_masks s)[step s + 1 := m_in] \<and>
            actions s' = (actions s)[step s := a_in] \<and>
            action_log_probs s' = (action_log_probs s)[step s := l_in] \<and>
            value_preds s' = (value_preds s)[step s := v_in] \<and>
            rewards s' = (rewards s)[step s := r_in] \<and>
            returns s' = returns s \<and> rollout_steps s' = rollout_steps s \<and>
            num_processes s' = num_processes s \<and>
            step s' = (step s + 1) mod T \<and> step s' < T) \<and>
         (\<forall>xs. list_all (transition_shaped N) xs \<longrightarrow>
            (\<exists>s'. insert_all s xs = Inr s' \<and> shaped T N s' \<and>
                  step s' = (step s + length xs) mod T \<and> step s' < T \<and>
                  (length xs = T \<longrightarrow> step s' = step s)))"
proof (rule conjI)
  from assms(2) have "0 < T" by simp
  then show "\<exists>s'. insert_storage s o_in h_in a_in l_in v_in r_in d_in m_in = Inr s' \<and>
            obs s' = (obs s)[step s + 1 := o_in] \<and>
            recurrent_hidden_states s' = (recurrent_hidden_states s)[step s + 1 := h_in] \<and>
            done_masks s' = (done_masks s)[step s + 1 := d_in] \<and>
            time_limit_masks s' = (time_limit_masks s)[step s + 1 := m_in] \<and>
            actions s' = (actions s)[step s := a_in] \<and>
            action_log_probs s' = (action_log_probs s)[step s := l_in] \<and>
            value_preds s' = (value_preds s)[step s := v_in] \<and>
            rewards s' = (rewards s)[step s := r_in] \<and>
            returns s' = returns s \<and> rollout_steps s' = rollout_steps s \<and>
            num_processes s' = num_processes s \<and>
            step s' = (step s + 1) mod T \<and> step s' < T"
    unfolding insert_storage_ok [OF assms] by simp
next
  show "\<forall>xs. list_all (transition_shaped N) xs \<longrightarrow>
            (\<exists>s'. insert_all s xs = Inr s' \<and> shaped T N s' \<and>
                  step s' = (step s + length xs) mod T \<and> step s' < T \<and>
                  (length xs = T \<longrightarrow> step s' = step s))"
  proof (intro allI impI)
    fix xs :: "('a, 'b, 'c, 'd) transition list"
    assume "list_all (transition_shaped N) xs"
    from insert_all_cursor [OF assms(1,2) this] obtain s' where
      s': "insert_all s xs = Inr s'" "shaped T N s'"
          "step s' = (step s + length xs) mod T" "step s' < T"
      by blast
    have "length xs = T \<longrightarrow> step s' = step s"
      using s'(3) assms(2) by simp
    with s' show "\<exists>s'. insert_all s xs = Inr s' \<and> shaped T N s' \<and>
                  step s' = (step s + length xs) mod T \<and> step s' < T \<and>
                  (length xs = T \<longrightarrow> step s' = step s)"
      by blast
  qed
qed

theorem insert_cursor_cycle_witness:
  "shaped 2 2 example_storage \<and> step example_storage < 2 \<and>
   list_all (transition_shaped 2) [example_transition 1, example_transition 2] \<and>
   (\<exists>s'. insert_storage example_storage [1, 2] [3, 4] [0, 0] [0, 0] [5, 6] [1, 1] [1, 1] [1, 1]
            = Inr s' \<and>
         obs s' = (obs example_storage)[step example_storage + 1 := [1, 2]] \<and>
         value_preds s' = (value_preds example_storage)[step example_storage := [5, 6]] \<and>
         step s' = (step example_storage + 1) mod 2) \<and>
   (\<exists>s'. insert_all example_storage [example_transition 1, example_transition 2] = Inr s' \<and>
         step s' = (step example_storage + 2) mod 2 \<and> step s' < 2 \<and>
         step s' = step example_storage)"
proof -
  have h: "step example_storage < 2"
    by (simp add: example_storage_def)
  have xs: "list_all (transition_shaped 2) [example_transition 1, example_transition 2]"
    by (simp add: transition_shaped_example)
  have l: "length [1, 2 :: int] = 2" "length [3, 4 :: int] = 2" "length [0, 0 :: int] = 2"
    "length [5, 6 :: int] = 2" "length [1, 1 :: int] = 2"
    by simp_all
  note w = insert_cursor_cycle [OF shaped_example h l(1) l(2) l(3) l(3) l(4) l(5) l(5) l(5)]
  from w have a:
    "\<exists>s'. insert_storage example_storage [1, 2] [3, 4] [0, 0] [0, 0] [5, 6] [1, 1] [1, 1] [1, 1]
            = Inr s' \<and>
         obs s' = (obs example_storage)[step example_storage + 1 := [1, 2]] \<and>
         value_preds s' = (value_preds example_storage)[step example_storage := [5, 6]] \<and>
         step s' = (step example_storage + 1) mod 2"
    by blast
  from w xs have
    "\<exists>s'. insert_all example_storage [example_transition 1, example_transition 2] = Inr s' \<and>
         shaped 2 2 s' \<and>
         step s' = (step example_storage
                    + length [example_transition 1, example_transition 2]) mod 2 \<and>
         step s' < 2 \<and>
         (length [example_transition 1, example_transition 2] = 2 \<longrightarrow>
          step s' = step example_storage)"
    by blast
  then have b:
    "\<exists>s'. insert_all example_storage [example_transition 1, example_transition 2] = Inr s' \<and>
         step s' = (step example_storage + 2) mod 2 \<and> step s' < 2 \<and>
         step s' = step example_storage"
    by auto
  from shaped_example h xs a b show ?thesis
    by blast
qed

lemma insert_transition_slot0:
  assumes "insert_transition s x = Inr s'"
  shows "obs s' ! 0 = obs s ! 0 \<and>
         recurrent_hidden_states s' ! 0 = recurrent_hidden_states s ! 0 \<and>
         done_masks s' ! 0 = done_masks s ! 0 \<and>
         time_limit_masks s' ! 0 = time_limit_masks s ! 0 \<and>
         returns s' = returns s"
  using assms
  by (auto simp add: insert_transition_def insert_storage_def bindE_def
        split: sum.splits if_splits dest!: copy_row_result)

text \<open>
  Claim C10, as stated: \<open>insert\<close> never modifies slot 0 of any array of length \<open>T + 1\<close>.
  \<open>value_preds\<close> has length \<open>T + 1\<close> and is written at index \<open>step\<close>: the first insert of a
  rollout, at \<open>step = 0\<close>, replaces its slot 0.
\<close>

theorem insert_value_preds_slot0_counterexample:
  "length (value_preds example_storage) = rollout_steps example_storage + 1 \<and>
   step example_storage = 0 \<and>
   \<not> isl (insert_transition example_storage (example_transition 10)) \<and>
   value_preds example_storage ! 0 = [5, 6] \<and>
   value_preds (projr (insert_transition example_storage (example_transition 10))) ! 0
     = [14, 15]"
  by (simp add: insert_transition_def insert_storage_def copy_row_def tensor_copy_def
        bindE_def example_storage_def example_transition_def)

text \<open>
  Claim C10, amended. No sequence of inserts modifies slot 0 of the observations, the
  recurrent states, the done masks or the time-limit masks, which are written at index
  \<open>step + 1\<close> only, nor any slot of \<open>returns\<close>, which \<open>insert\<close> does not write. (Of the arrays
  of length \<open>T + 1\<close> that leaves \<open>value_preds\<close>, written at index \<open>step\<close>.)
\<close>

theorem insert_all_slot0:
  assumes "insert_all s xs = Inr s'"
  shows "obs s' ! 0 = obs s ! 0 \<and>
         recurrent_hidden_states s' ! 0 = recurrent_hidden_states s ! 0 \<and>
         done_masks s' ! 0 = done_masks s ! 0 \<and>
         time_limit_masks s' ! 0 = time_limit_masks s ! 0 \<and>
         returns s' = returns s"
  using assms
proof (induction xs arbitrary: s)
  case Nil
  then show ?case by simp
next
  case (Cons x xs)
  then obtain s1 where s1: "insert_transition s x = Inr s1" "insert_all s1 xs = Inr s'"
    by (auto split: sum.splits)
  from insert_transition_slot0 [OF s1(1)] Cons.IH [OF s1(2)] show ?case
    by simp
qed

theorem insert_all_slot0_witness:
  "\<not> isl (insert_all example_storage [example_transition 1, example_transition 2]) \<and>
   obs (projr (insert_all example_storage [example_transition 1, example_transition 2])) ! 0
     = obs example_storage ! 0 \<and>
   returns (projr (insert_all example_storage [example_transition 1, example_transition 2]))
     = returns example_storage"
proof -
  have ok: "\<not> isl (insert_all example_storage [example_transition 1, example_transition 2])"
    by (simp add: insert_transition_def insert_storage_def copy_row_def tensor_copy_def
          bindE_def example_storage_def example_transition_def)
  then have h: "insert_all example_storage [example_transition 1, example_transition 2] =
      Inr (projr (insert_all example_storage [example_transition 1, example_transition 2]))"
    by (cases "insert_all example_storage [example_transition 1, example_transition 2]")
       simp_all
  from insert_all_slot0 [OF h] ok show ?thesis
    by blast
qed

subsection \<open>\<open>compute_returns\<close>\<close>

lemma t_add_nth: "e < length xs \<Longrightarrow> e < length ys \<Longrightarrow> t_add xs ys ! e = xs ! e + ys ! e"
  by (simp add: t_add_def)

lemma t_sub_nth: "e < length xs \<Longrightarrow> e < length ys \<Longrightarrow> t_sub xs ys ! e = xs ! e - ys ! e"
  by (simp add: t_sub_def)

lemma t_mul_nth: "e < length xs \<Longrightarrow> e < length ys \<Longrightarrow> t_mul xs ys ! e = xs ! e * ys ! e"
  by (simp add: t_mul_def)

lemma s_mul_nth: "e < length xs \<Longrightarrow> s_mul c xs ! e = c * xs ! e"
  by (simp add: s_mul_def)

lemma t_mul_s_nth: "e < length xs \<Longrightarrow> t_mul_s xs c ! e = xs ! e * c"
  by (simp add: t_mul_s_def)

lemma one_minus_nth: "e < length xs \<Longrightarrow> one_minus xs ! e = 1 - xs ! e"
  by (simp add: one_minus_def)

lemma t_add_length [simp]: "length (t_add xs ys) = min (length xs) (length ys)"
  by (simp add: t_add_def)

lemma t_sub_length [simp]: "length (t_sub xs ys) = min (length xs) (length ys)"
  by (simp add: t_sub_def)

lemma t_mul_length [simp]: "length (t_mul xs ys) = min (length xs) (length ys)"
  by (simp add: t_mul_def)

lemma s_mul_length [simp]: "length (s_mul c xs) = length xs"
  by (simp add: s_mul_def)

lemma t_mul_s_length [simp]: "length (t_mul_s xs c) = length xs"
  by (simp add: t_mul_s_def)

lemma one_minus_length [simp]: "length (one_minus xs) = length xs"
  by (simp add: one_minus_def)

lemma t_mul_acc_length:
  "acc_ok N gae f \<Longrightarrow> length xs = N \<Longrightarrow> length (t_mul_acc xs gae) = N"
  by (cases gae) (simp_all add: acc_ok_def)

lemma t_mul_acc_nth:
  "acc_ok N gae f \<Longrightarrow> length xs = N \<Longrightarrow> e < N \<Longrightarrow> t_mul_acc xs gae ! e = xs ! e * f e"
  by (cases gae) (simp_all add: acc_ok_def t_mul_s_nth t_mul_nth)

lemma shaped_returns_update:
  "shaped T N s \<Longrightarrow> length row = N \<Longrightarrow> shaped T N (s\<lparr>returns := (returns s)[i := row]\<rparr>)"
  by (simp add: shaped_def time_shaped_def rows_update)

lemma gae_ptl_loop_frame:
  "rewards (gae_ptl_loop g l k gae s) = rewards s \<and>
   value_preds (gae_ptl_loop g l k gae s) = value_preds s \<and>
   done_masks (gae_ptl_loop g l k gae s) = done_masks s \<and>
   time_limit_masks (gae_ptl_loop g l k gae s) = time_limit_masks s \<and>
   length (returns (gae_ptl_loop g l k gae s)) = length (returns s)"
  by (induction k arbitrary: gae s) (simp_all add: Let_def)

lemma gae_ptl_loop_above:
  "k \<le> t \<Longrightarrow> returns (gae_ptl_loop g l k gae s) ! t = returns s ! t"
  by (induction k arbitrary: gae s) (simp_all add: Let_def)

lemma gae_ptl_loop_returns:
  assumes "shaped T N s" and "k \<le> T"
    and "acc_ok N gae
           (gae_ptl_spec g l (rewards s) (value_preds s) (done_masks s) (time_limit_masks s) k)"
    and "t < k" and "e < N"
  shows "returns (gae_ptl_loop g l k gae s) ! t ! e =
         gae_ptl_spec g l (rewards s) (value_preds s) (done_masks s) (time_limit_masks s) t e
         + value_preds s ! t ! e"
  using assms
proof (induction k arbitrary: gae s)
  case 0
  then show ?case by simp
next
  case (Suc k)
  let ?r = "rewards s" and ?v = "value_preds s" and ?d = "done_masks s"
    and ?m = "time_limit_masks s"
  let ?spec = "gae_ptl_spec g l ?r ?v ?d ?m"
  define delta where "delta = t_sub (t_add (?r ! k) (t_mul (s_mul g (?v ! (k + 1))) (?d ! (k + 1)))) (?v ! k)"
  define gae1 where "gae1 = t_add delta (t_mul_acc (s_mul (g * l) (?d ! (k + 1))) gae)"
  define gae2 where "gae2 = t_mul gae1 (?m ! (k + 1))"
  define s1 where "s1 = s\<lparr>returns := (returns s)[k := t_add gae2 (?v ! k)]\<rparr>"
  have unroll: "gae_ptl_loop g l (Suc k) gae s = gae_ptl_loop g l k (Row gae2) s1"
    by (simp add: Let_def delta_def gae1_def gae2_def s1_def)
  from Suc.prems have sh: "shaped T N s" and kT: "k < T" by simp_all
  then have len:
    "length (?r ! k) = N" "length (?v ! k) = N" "length (?v ! (k + 1)) = N"
    "length (?d ! (k + 1)) = N" "length (?m ! (k + 1)) = N"
    by (simp_all add: shaped_def time_shaped_def rows_nth)
  have ldelta: "length delta = N"
    using len by (simp add: delta_def)
  have lacc: "length (t_mul_acc (s_mul (g * l) (?d ! (k + 1))) gae) = N"
    using t_mul_acc_length [OF Suc.prems(3)] len by simp
  have lgae1: "length gae1 = N"
    using ldelta lacc by (simp add: gae1_def)
  have lgae2: "length gae2 = N"
    using lgae1 len by (simp add: gae2_def)
  have val: "gae2 ! e' = ?spec k e'" if "e' < N" for e'
  proof -
    have "delta ! e' = ?r ! k ! e' + g * ?v ! (k + 1) ! e' * ?d ! (k + 1) ! e' - ?v ! k ! e'"
      using that len by (simp add: delta_def t_sub_nth t_add_nth t_mul_nth s_mul_nth)
    moreover have "t_mul_acc (s_mul (g * l) (?d ! (k + 1))) gae ! e' =
        g * l * ?d ! (k + 1) ! e' * ?spec (Suc k) e'"
      using t_mul_acc_nth [OF Suc.prems(3) _ that] len that by (simp add: s_mul_nth)
    ultimately have "gae1 ! e' = ?r ! k ! e' + g * ?v ! (k + 1) ! e' * ?d ! (k + 1) ! e'
        - ?v ! k ! e' + g * l * ?d ! (k + 1) ! e' * ?spec (Suc k) e'"
      using that ldelta lacc by (simp add: gae1_def t_add_nth)
    then have "gae2 ! e' = (?r ! k ! e' + g * ?v ! (k + 1) ! e' * ?d ! (k + 1) ! e'
        - ?v ! k ! e' + g * l * ?d ! (k + 1) ! e' * ?spec (Suc k) e') * ?m ! (k + 1) ! e'"
      using that lgae1 len by (simp add: gae2_def t_mul_nth)
    moreover have "\<not> length ?r \<le> k"
      using sh kT by (simp add: shaped_def time_shaped_def)
    ultimately show ?thesis
      by (subst gae_ptl_spec.simps) (simp add: Let_def)
  qed
  have sh1: "shaped T N s1"
    unfolding s1_def using sh lgae2 len by (intro shaped_returns_update) simp_all
  have f1: "rewards s1 = ?r" "value_preds s1 = ?v" "done_masks s1 = ?d"
    "time_limit_masks s1 = ?m"
    by (simp_all add: s1_def)
  have acc1: "acc_ok N (Row gae2) (gae_ptl_spec g l (rewards s1) (value_preds s1)
      (done_masks s1) (time_limit_masks s1) k)"
    using lgae2 val by (simp add: acc_ok_def f1)
  show ?case
  proof (cases "t < k")
    case True
    from Suc.IH [OF sh1 _ acc1 True Suc.prems(5)] kT show ?thesis
      unfolding unroll by (simp add: f1)
  next
    case False
    with Suc.prems(4) have tk: "t = k" by simp
    have "k < length (returns s)"
      using sh kT by (simp add: shaped_def time_shaped_def)
    then have "returns (gae_ptl_loop g l k (Row gae2) s1) ! k = t_add gae2 (?v ! k)"
      by (simp add: gae_ptl_loop_above s1_def)
    then show ?thesis
      unfolding unroll tk using Suc.prems(5) lgae2 len val by (simp add: t_add_nth)
  qed
qed

lemma set_last_nth: "length xs = T + 1 \<Longrightarrow> set_last xs v ! T = v"
  by (simp add: set_last_def)

lemma set_last_length [simp]: "length (set_last xs v) = length xs"
  by (simp add: set_last_def)

lemma set_last_eq: "length xs = T + 1 \<Longrightarrow> set_last xs v = xs[T := v]"
  by (simp add: set_last_def)

lemma shaped_value_preds_last:
  "shaped T N s \<Longrightarrow> length v = N \<Longrightarrow>
   shaped T N (s\<lparr>value_preds := set_last (value_preds s) v\<rparr>)"
  by (simp add: shaped_def time_shaped_def set_last_def rows_update)

lemma shaped_returns_last:
  "shaped T N s \<Longrightarrow> length v = N \<Longrightarrow> shaped T N (s\<lparr>returns := set_last (returns s) v\<rparr>)"
  by (simp add: shaped_def time_shaped_def set_last_def rows_update)

text \<open>
  Claim C1. With \<open>use_gae\<close> and \<open>use_proper_time_limits\<close> both true, \<open>compute_returns\<close>
  puts the bootstrap value in \<open>value_preds[T]\<close> and, for every step \<open>t < T\<close> and every
  environment \<open>e\<close>, sets \<open>returns[t]\<close> to the accumulated advantage plus \<open>value_preds[t]\<close>,
  the advantage being the specification's recursion \<open>gae_ptl_spec\<close>: \<open>delta\<close> from the
  reward and the masked next value, \<open>gae = delta + gamma * gae_lambda * done_masks[t+1] * gae\<close>,
  then masked by \<open>time_limit_masks[t+1]\<close>.
\<close>

theorem compute_returns_gae_proper_time_limits:
  assumes "shaped T N s" and "length next_value = N"
  shows "value_preds (compute_returns s next_value True gamma gae_lambda True)
           = (value_preds s)[T := next_value] \<and>
         value_preds (compute_returns s next_value True gamma gae_lambda True) ! T = next_value \<and>
         (\<forall>t<T. \<forall>e<N.
            returns (compute_returns s next_value True gamma gae_lambda True) ! t ! e =
              gae_ptl_spec gamma gae_lambda (rewards s) ((value_preds s)[T := next_value])
                (done_masks s) (time_limit_masks s) t e
              + (value_preds s)[T := next_value] ! t ! e)"
proof -
  define s0 where "s0 = s\<lparr>value_preds := set_last (value_preds s) next_value\<rparr>"
  have lens: "length (rewards s) = T" "length (value_preds s) = T + 1"
    using assms(1) by (simp_all add: shaped_def time_shaped_def)
  have cr: "compute_returns s next_value True gamma gae_lambda True =
      gae_ptl_loop gamma gae_lambda T (Scalar 0) s0"
    by (simp add: compute_returns_def s0_def lens)
  have sh0: "shaped T N s0"
    unfolding s0_def using assms by (rule shaped_value_preds_last)
  have f0: "rewards s0 = rewards s" "value_preds s0 = (value_preds s)[T := next_value]"
    "done_masks s0 = done_masks s" "time_limit_masks s0 = time_limit_masks s"
    by (simp_all add: s0_def set_last_eq [OF lens(2)])
  have acc0: "acc_ok N (Scalar 0) (gae_ptl_spec gamma gae_lambda (rewards s0) (value_preds s0)
      (done_masks s0) (time_limit_masks s0) T)"
    by (simp add: acc_ok_def gae_ptl_spec.simps [of _ _ _ _ _ _ T] f0 lens)
  have vp: "value_preds (gae_ptl_loop gamma gae_lambda T (Scalar 0) s0) =
      (value_preds s)[T := next_value]"
    by (simp add: gae_ptl_loop_frame f0)
  have "returns (gae_ptl_loop gamma gae_lambda T (Scalar 0) s0) ! t ! e =
      gae_ptl_spec gamma gae_lambda (rewards s) ((value_preds s)[T := next_value])
        (done_masks s) (time_limit_masks s) t e + (value_preds s)[T := next_value] ! t ! e"
    if "t < T" "e < N" for t e
    using gae_ptl_loop_returns [OF sh0 le_refl acc0 that] by (simp add: f0)
  then show ?thesis
    unfolding cr vp using lens by simp
qed


lemma returns_ptl_loop_above:
  "k \<le> t \<Longrightarrow> returns (returns_ptl_loop g k s) ! t = returns s ! t"
  by (induction k arbitrary: s) simp_all

lemma returns_ptl_loop_returns:
  assumes "shaped T N s" and "k \<le> T" and "t < k" and "e < N"
  shows "returns (returns_ptl_loop g k s) ! t ! e =
         (returns (returns_ptl_loop g k s) ! (t + 1) ! e * g * done_masks s ! (t + 1) ! e
            + rewards s ! t ! e) * time_limit_masks s ! (t + 1) ! e
         + (1 - time_limit_masks s ! (t + 1) ! e) * value_preds s ! t ! e"
  using assms
proof (induction k arbitrary: s)
  case 0
  then show ?case by simp
next
  case (Suc k)
  let ?r = "rewards s" and ?v = "value_preds s" and ?d = "done_masks s"
    and ?m = "time_limit_masks s"
  define row where "row =
     t_add (t_mul (t_add (t_mul (t_mul_s (returns s ! (k + 1)) g) (?d ! (k + 1))) (?r ! k))
                  (?m ! (k + 1)))
           (t_mul (one_minus (?m ! (k + 1))) (?v ! k))"
  define s1 where "s1 = s\<lparr>returns := (returns s)[k := row]\<rparr>"
  have unroll: "returns_ptl_loop g (Suc k) s = returns_ptl_loop g k s1"
    by (simp add: row_def s1_def)
  from Suc.prems have sh: "shaped T N s" and kT: "k < T" by simp_all
  then have len:
    "length (?r ! k) = N" "length (?v ! k) = N" "length (returns s ! (k + 1)) = N"
    "length (?d ! (k + 1)) = N" "length (?m ! (k + 1)) = N"
    by (simp_all add: shaped_def time_shaped_def rows_nth)
  have lrow: "length row = N"
    using len by (simp add: row_def)
  have sh1: "shaped T N s1"
    unfolding s1_def using sh lrow by (rule shaped_returns_update)
  have f1: "rewards s1 = ?r" "value_preds s1 = ?v" "done_masks s1 = ?d"
    "time_limit_masks s1 = ?m"
    by (simp_all add: s1_def)
  show ?case
  proof (cases "t < k")
    case True
    from Suc.IH [OF sh1 _ True Suc.prems(4)] kT show ?thesis
      unfolding unroll by (simp add: f1)
  next
    case False
    with Suc.prems(3) have tk: "t = k" by simp
    have kl: "k < length (returns s)"
      using sh kT by (simp add: shaped_def time_shaped_def)
    then have here: "returns (returns_ptl_loop g k s1) ! k = row"
      by (simp add: returns_ptl_loop_above s1_def)
    have above: "returns (returns_ptl_loop g k s1) ! (k + 1) = returns s ! (k + 1)"
      by (simp add: returns_ptl_loop_above s1_def)
    have "row ! e = (returns s ! (k + 1) ! e * g * ?d ! (k + 1) ! e + ?r ! k ! e)
          * ?m ! (k + 1) ! e + (1 - ?m ! (k + 1) ! e) * ?v ! k ! e"
      using Suc.prems(4) len
      by (simp add: row_def t_add_nth t_mul_nth t_mul_s_nth one_minus_nth)
    then show ?thesis
      unfolding unroll tk here above by simp
  qed
qed

text \<open>
  Claim C2. With \<open>use_gae\<close> false and \<open>use_proper_time_limits\<close> true, \<open>compute_returns\<close>
  sets \<open>returns[T]\<close> to the bootstrap value and, for every step \<open>t < T\<close> and every
  environment, \<open>returns[t] = (returns[t+1] * gamma * done_masks[t+1] + reward[t]) *
  time_limit_masks[t+1] + (1 - time_limit_masks[t+1]) * value_preds[t]\<close>, read on the
  buffer the call leaves.
\<close>

theorem compute_returns_proper_time_limits:
  assumes "shaped T N s" and "length next_value = N"
  shows "returns (compute_returns s next_value False gamma gae_lambda True) ! T = next_value \<and>
         (\<forall>t<T. \<forall>e<N.
            returns (compute_returns s next_value False gamma gae_lambda True) ! t ! e =
              (returns (compute_returns s next_value False gamma gae_lambda True) ! (t + 1) ! e
                 * gamma * done_masks s ! (t + 1) ! e + rewards s ! t ! e)
                * time_limit_masks s ! (t + 1) ! e
              + (1 - time_limit_masks s ! (t + 1) ! e) * value_preds s ! t ! e)"
proof -
  define s0 where "s0 = s\<lparr>returns := set_last (returns s) next_value\<rparr>"
  have lens: "length (rewards s) = T" "length (returns s) = T + 1"
    using assms(1) by (simp_all add: shaped_def time_shaped_def)
  have cr: "compute_returns s next_value False gamma gae_lambda True =
      returns_ptl_loop gamma T s0"
    by (simp add: compute_returns_def s0_def lens)
  have sh0: "shaped T N s0"
    unfolding s0_def using assms by (rule shaped_returns_last)
  have f0: "rewards s0 = rewards s" "value_preds s0 = value_preds s"
    "done_masks s0 = done_masks s" "time_limit_masks s0 = time_limit_masks s"
    by (simp_all add: s0_def)
  have "returns (returns_ptl_loop gamma T s0) ! T = next_value"
    using lens by (simp add: returns_ptl_loop_above s0_def set_last_nth)
  moreover have "returns (returns_ptl_loop gamma T s0) ! t ! e =
      (returns (returns_ptl_loop gamma T s0) ! (t + 1) ! e * gamma * done_masks s ! (t + 1) ! e
         + rewards s ! t ! e) * time_limit_masks s ! (t + 1) ! e
      + (1 - time_limit_masks s ! (t + 1) ! e) * value_preds s ! t ! e"
    if "t < T" "e < N" for t e
    using returns_ptl_loop_returns [OF sh0 le_refl that] by (simp add: f0)
  ultimately show ?thesis
    unfolding cr by simp
qed











theorem compute_returns_gae_proper_time_limits_witness:
  "shaped 2 2 example_storage \<and> length [3, 4 :: int] = 2 \<and>
   value_preds (compute_returns example_storage [3, 4] True 2 3 True) ! 2 = [3, 4] \<and>
   returns (compute_returns example_storage [3, 4] True 2 3 True) ! 1 ! 0 =
     gae_ptl_spec 2 3 (rewards example_storage) ((value_preds example_storage)[2 := [3, 4]])
       (done_masks example_storage) (time_limit_masks example_storage) 1 0
     + (value_preds example_storage)[2 := [3, 4]] ! 1 ! 0"
proof -
  have h: "length [3, 4 :: int] = 2" by simp
  from compute_returns_gae_proper_time_limits [OF shaped_example h, of 2 3]
  show ?thesis
    using shaped_example by (simp add: example_storage_def)
qed

theorem compute_returns_proper_time_limits_witness:
  "shaped 2 2 example_storage \<and> length [3, 4 :: int] = 2 \<and>
   returns (compute_returns example_storage [3, 4] False 2 3 True) ! 2 = [3, 4] \<and>
   returns (compute_returns example_storage [3, 4] False 2 3 True) ! 1 ! 0 =
     (returns (compute_returns example_storage [3, 4] False 2 3 True) ! (1 + 1) ! 0
        * 2 * done_masks example_storage ! (1 + 1) ! 0 + rewards example_storage ! 1 ! 0)
       * time_limit_masks example_storage ! (1 + 1) ! 0
     + (1 - time_limit_masks example_storage ! (1 + 1) ! 0) * value_preds example_storage ! 1 ! 0"
proof -
  have h: "length [3, 4 :: int] = 2" by simp
  from compute_returns_proper_time_limits [OF shaped_example h, of 2 3]
  show ?thesis
    using shaped_example by simp
qed


subsection \<open>The minibatch generators\<close>

lemma batch_loop_drop:
  assumes "0 < b" and "length batch < b"
  shows "concat (batch_loop b True batch xs)
           = take ((length batch + length xs) div b * b) (batch @ xs) \<and>
         length (batch_loop b True batch xs) = (length batch + length xs) div b \<and>
         list_all (\<lambda>c. length c = b) (batch_loop b True batch xs)"
  using assms
proof (induction xs arbitrary: batch)
  case Nil
  then show ?case by simp
next
  case (Cons idx rest)
  show ?case
  proof (cases "length (batch @ [idx]) = b")
    case True
    then have "length batch + length (idx # rest) = b + length rest"
      by simp
    then have q: "(length batch + length (idx # rest)) div b = Suc (length rest div b)"
      using Cons.prems(1) by (simp only: div_add_self1)
    from Cons.IH [of "[]"] Cons.prems(1) have ih:
      "concat (batch_loop b True [] rest) = take (length rest div b * b) rest"
      "length (batch_loop b True [] rest) = length rest div b"
      "list_all (\<lambda>c. length c = b) (batch_loop b True [] rest)"
      by simp_all
    have "take (Suc m * b) (c @ rest) = c @ take (m * b) rest"
      if "length c = b" for c :: "nat list" and m
      using that by simp
    from this [OF True, of "length rest div b"]
    have "take (Suc (length rest div b) * b) (batch @ idx # rest)
            = (batch @ [idx]) @ take (length rest div b * b) rest"
      by simp
    then show ?thesis
      using True ih unfolding q by simp
  next
    case False
    with Cons.prems have "length (batch @ [idx]) < b" by simp
    from Cons.IH [OF Cons.prems(1) this] False show ?thesis by simp
  qed
qed

lemma SubsetRandomSampler_range:
  "randperm n perm \<Longrightarrow> SubsetRandomSampler [0..<n] perm = perm"
  by (simp add: SubsetRandomSampler_def randperm_def list_all_iff map_idI)

lemma ff_sampler_props:
  assumes "randperm n perm" and "0 < b"
  shows "length (ff_sampler n b perm) = n div b"
    and "list_all (\<lambda>c. length c = b) (ff_sampler n b perm)"
    and "distinct (concat (ff_sampler n b perm))"
    and "list_all (\<lambda>i. i < n) (concat (ff_sampler n b perm))"
    and "concat (ff_sampler n b perm) = take (n div b * b) perm"
proof -
  have len: "length perm = n" and dist: "distinct perm" and rng: "\<forall>i\<in>set perm. i < n"
    using assms(1) by (simp_all add: randperm_def list_all_iff)
  from batch_loop_drop [OF assms(2), of "[]" perm] assms(2)
  have bl: "concat (batch_loop b True [] perm) = take (n div b * b) perm"
    "length (batch_loop b True [] perm) = n div b"
    "list_all (\<lambda>c. length c = b) (batch_loop b True [] perm)"
    by (simp_all add: len)
  have eq: "ff_sampler n b perm = batch_loop b True [] perm"
    by (simp add: ff_sampler_def BatchSampler_def SubsetRandomSampler_range [OF assms(1)])
  show "length (ff_sampler n b perm) = n div b"
    and "list_all (\<lambda>c. length c = b) (ff_sampler n b perm)"
    and "concat (ff_sampler n b perm) = take (n div b * b) perm"
    using bl by (simp_all add: eq)
  show "distinct (concat (ff_sampler n b perm))"
    using dist by (simp add: eq bl)
  show "list_all (\<lambda>i. i < n) (concat (ff_sampler n b perm))"
    unfolding eq bl list_all_iff using rng by (auto dest: in_set_takeD)
qed

lemma rows_concat_length: "rows N xs \<Longrightarrow> length (concat xs) = length xs * N"
  by (induction xs) (simp_all add: rows_def)

lemma rows_butlast: "rows N xs \<Longrightarrow> rows N (butlast xs)"
  by (auto simp add: rows_def list_all_iff dest: in_set_butlastD)

lemma concat_nth_rows:
  "rows N xs \<Longrightarrow> i < length xs * N \<Longrightarrow> concat xs ! i = xs ! (i div N) ! (i mod N)"
proof (induction xs arbitrary: i)
  case Nil
  then show ?case by simp
next
  case (Cons row xs)
  then have r: "length row = N" "rows N xs" by (simp_all add: rows_def)
  from Cons.prems have N: "0 < N" by (cases N) simp_all
  show ?case
  proof (cases "i < N")
    case True
    then show ?thesis using r by (simp add: nth_append)
  next
    case False
    then have "i - N < length xs * N" using Cons.prems(2) by simp
    from Cons.IH [OF r(2) this] False N r show ?thesis
      by (simp add: nth_append le_div_geq le_mod_geq)
  qed
qed

lemma index_select_ok:
  "list_all (\<lambda>i. i < n) indices \<Longrightarrow> length xs = n \<Longrightarrow>
   index_select xs indices = Inr (map (\<lambda>i. xs ! i) indices)"
  by (simp add: index_select_def)

lemma shaped_flat_lengths:
  assumes "shaped T N s"
  shows "length (concat (butlast (obs s))) = T * N"
    and "length (concat (butlast (recurrent_hidden_states s))) = T * N"
    and "length (concat (actions s)) = T * N"
    and "length (concat (butlast (value_preds s))) = T * N"
    and "length (concat (butlast (returns s))) = T * N"
    and "length (concat (butlast (done_masks s))) = T * N"
    and "length (concat (action_log_probs s)) = T * N"
proof -
  have a: "length (concat (butlast xs)) = T * N"
    if "rows N xs" "length xs = T + 1" for xs :: "'x list list"
    using rows_concat_length [OF rows_butlast [OF that(1)]] that(2) by simp
  have b: "length (concat xs) = T * N"
    if "rows N xs" "length xs = T" for xs :: "'x list list"
    using rows_concat_length [OF that(1)] that(2) by simp
  from assms show "length (concat (butlast (obs s))) = T * N"
    by (intro a) (simp_all add: shaped_def time_shaped_def)
  from assms show "length (concat (butlast (recurrent_hidden_states s))) = T * N"
    by (intro a) (simp_all add: shaped_def time_shaped_def)
  from assms show "length (concat (actions s)) = T * N"
    by (intro b) (simp_all add: shaped_def time_shaped_def)
  from assms show "length (concat (butlast (value_preds s))) = T * N"
    by (intro a) (simp_all add: shaped_def time_shaped_def)
  from assms show "length (concat (butlast (returns s))) = T * N"
    by (intro a) (simp_all add: shaped_def time_shaped_def)
  from assms show "length (concat (butlast (done_masks s))) = T * N"
    by (intro a) (simp_all add: shaped_def time_shaped_def)
  from assms show "length (concat (action_log_probs s)) = T * N"
    by (intro b) (simp_all add: shaped_def time_shaped_def)
qed

lemma ff_minibatch_ok:
  assumes "shaped T N s" and "adv_shaped T N advantages"
    and "list_all (\<lambda>i. i < T * N) indices"
  shows "ff_minibatch s advantages indices =
     Inr \<lparr> obs_batch = map (\<lambda>i. concat (butlast (obs s)) ! i) indices,
           recurrent_hidden_states_batch =
             map (\<lambda>i. concat (butlast (recurrent_hidden_states s)) ! i) indices,
           actions_batch = map (\<lambda>i. concat (actions s) ! i) indices,
           value_preds_batch = map (\<lambda>i. concat (butlast (value_preds s)) ! i) indices,
           return_batch = map (\<lambda>i. concat (butlast (returns s)) ! i) indices,
           masks_batch = map (\<lambda>i. concat (butlast (done_masks s)) ! i) indices,
           old_action_log_probs_batch = map (\<lambda>i. concat (action_log_probs s) ! i) indices,
           adv_targ = map_option (\<lambda>adv. map (\<lambda>i. concat adv ! i) indices) advantages \<rparr>"
proof -
  note sel = index_select_ok [OF assms(3)]
  have adv: "(case advantages of None \<Rightarrow> Inr None
              | Some adv \<Rightarrow> bindE (index_select (concat adv) indices) (\<lambda>a. Inr (Some a)))
             = Inr (map_option (\<lambda>adv. map (\<lambda>i. concat adv ! i) indices) advantages)"
  proof (cases advantages)
    case None
    then show ?thesis by simp
  next
    case (Some a)
    with assms(2) have "rows N a" "length a = T"
      by (simp_all add: adv_shaped_def)
    with rows_concat_length [of N a] have "length (concat a) = T * N"
      by simp
    from sel [OF this] Some show ?thesis by (simp add: bindE_def)
  qed
  show ?thesis
    unfolding ff_minibatch_def adv
    by (simp add: bindE_def sel [OF shaped_flat_lengths(1) [OF assms(1)]]
          sel [OF shaped_flat_lengths(2) [OF assms(1)]]
          sel [OF shaped_flat_lengths(3) [OF assms(1)]]
          sel [OF shaped_flat_lengths(4) [OF assms(1)]]
          sel [OF shaped_flat_lengths(5) [OF assms(1)]]
          sel [OF shaped_flat_lengths(6) [OF assms(1)]]
          sel [OF shaped_flat_lengths(7) [OF assms(1)]])
qed

text \<open>
  The minibatch the generator gathers for a list of indices: every field at the sampled
  positions of its flattened tensor.
\<close>

lemma feed_forward_generator_ok:
  assumes "shaped T N s" and "num_processes s = N" and "adv_shaped T N advantages"
    and "randperm (T * N) perm"
    and "minibatch_size = Some (int b) \<or>
         (minibatch_size = None \<and> n_mb = Some m \<and> m \<noteq> 0 \<and> m \<le> int (T * N) \<and>
          int b = int (T * N) div m)"
    and "1 \<le> b"
  shows "feed_forward_generator s advantages n_mb minibatch_size perm =
           (map (\<lambda>indices.
              \<lparr> obs_batch = map (\<lambda>i. concat (butlast (obs s)) ! i) indices,
                recurrent_hidden_states_batch =
                  map (\<lambda>i. concat (butlast (recurrent_hidden_states s)) ! i) indices,
                actions_batch = map (\<lambda>i. concat (actions s) ! i) indices,
                value_preds_batch = map (\<lambda>i. concat (butlast (value_preds s)) ! i) indices,
                return_batch = map (\<lambda>i. concat (butlast (returns s)) ! i) indices,
                masks_batch = map (\<lambda>i. concat (butlast (done_masks s)) ! i) indices,
                old_action_log_probs_batch =
                  map (\<lambda>i. concat (action_log_probs s) ! i) indices,
                adv_targ = map_option (\<lambda>adv. map (\<lambda>i. concat adv ! i) indices) advantages \<rparr>)
              (ff_sampler (T * N) b perm),
            None)"
proof -
  have bs: "num_processes s * length (rewards s) = T * N"
    using assms(1,2) by (simp add: shaped_def time_shaped_def)
  from assms(6) have b: "0 < b" by simp
  have gen: "feed_forward_generator s advantages n_mb minibatch_size perm =
      ff_yield s advantages (ff_sampler (T * N) b perm)"
    using assms(5)
  proof
    assume "minibatch_size = Some (int b)"
    with b show ?thesis
      by (simp add: feed_forward_generator_def bs)
  next
    assume d: "minibatch_size = None \<and> n_mb = Some m \<and> m \<noteq> 0 \<and> m \<le> int (T * N) \<and>
          int b = int (T * N) div m"
    then have ms: "minibatch_size = None" "n_mb = Some m" "m \<noteq> 0"
      and le: "m \<le> int (T * N)" and q: "int (T * N) div m = int b"
      by simp_all
    show ?thesis
      unfolding feed_forward_generator_def Let_def ms bs
      using le q b ms(3) by (simp del: of_nat_mult)
  qed
  have "ff_yield s advantages batches =
      (map (\<lambda>indices.
              \<lparr> obs_batch = map (\<lambda>i. concat (butlast (obs s)) ! i) indices,
                recurrent_hidden_states_batch =
                  map (\<lambda>i. concat (butlast (recurrent_hidden_states s)) ! i) indices,
                actions_batch = map (\<lambda>i. concat (actions s) ! i) indices,
                value_preds_batch = map (\<lambda>i. concat (butlast (value_preds s)) ! i) indices,
                return_batch = map (\<lambda>i. concat (butlast (returns s)) ! i) indices,
                masks_batch = map (\<lambda>i. concat (butlast (done_masks s)) ! i) indices,
                old_action_log_probs_batch =
                  map (\<lambda>i. concat (action_log_probs s) ! i) indices,
                adv_targ = map_option (\<lambda>adv. map (\<lambda>i. concat adv ! i) indices) advantages \<rparr>)
           batches, None)"
    if "list_all (\<lambda>i. i < T * N) (concat batches)" for batches
    using that
  proof (induction batches)
    case Nil
    then show ?case by simp
  next
    case (Cons indices rest)
    then have "list_all (\<lambda>i. i < T * N) indices" and "list_all (\<lambda>i. i < T * N) (concat rest)"
      by simp_all
    from ff_minibatch_ok [OF assms(1,3) this(1)] Cons.IH [OF this(2)]
    show ?case by simp
  qed
  from this [OF ff_sampler_props(4) [OF assms(4) b]] show ?thesis
    unfolding gen .
qed

text \<open>
  Claim C3. On a buffer of \<open>T\<close> steps and \<open>N\<close> environments, with a minibatch size \<open>b\<close>,
  \<open>1 \<le> b \<le> T * N\<close>, one full consumption of \<open>feed_forward_generator\<close> ends without an
  error and yields \<open>T * N div b\<close> minibatches. The \<open>k\<close>-th one holds, in every field, the
  entries of the flattened tensor at the indices of the \<open>k\<close>-th batch of the sampler, which
  are exactly \<open>b\<close>. The batches, one after the other, are the first \<open>(T * N div b) * b\<close>
  entries of the permutation: no index occurs twice, every index is below \<open>T * N\<close>, and the
  indices left over after the last full batch are dropped.
\<close>

theorem feed_forward_generator_minibatches:
  assumes "shaped T N s" and "num_processes s = N" and "adv_shaped T N advantages"
    and "randperm (T * N) perm" and "1 \<le> b" and "b \<le> T * N"
  shows "\<exists>mbs. feed_forward_generator s advantages n_mb (Some (int b)) perm
                 = (mbs, None) \<and>
           length mbs = T * N div b \<and>
           length (ff_sampler (T * N) b perm) = T * N div b \<and>
           list_all2
             (\<lambda>mb indices.
                mb = \<lparr> obs_batch = map (\<lambda>i. concat (butlast (obs s)) ! i) indices,
                       recurrent_hidden_states_batch =
                         map (\<lambda>i. concat (butlast (recurrent_hidden_states s)) ! i) indices,
                       actions_batch = map (\<lambda>i. concat (actions s) ! i) indices,
                       value_preds_batch =
                         map (\<lambda>i. concat (butlast (value_preds s)) ! i) indices,
                       return_batch = map (\<lambda>i. concat (butlast (returns s)) ! i) indices,
                       masks_batch = map (\<lambda>i. concat (butlast (done_masks s)) ! i) indices,
                       old_action_log_probs_batch =
                         map (\<lambda>i. concat (action_log_probs s) ! i) indices,
                       adv_targ =
                         map_option (\<lambda>adv. map (\<lambda>i. concat adv ! i) indices) advantages \<rparr> \<and>
                ff_minibatch s advantages indices = Inr mb \<and> length indices = b \<and>
                length (obs_batch mb) = b \<and> length (recurrent_hidden_states_batch mb) = b \<and>
                length (actions_batch mb) = b \<and> length (value_preds_batch mb) = b \<and>
                length (return_batch mb) = b \<and> length (masks_batch mb) = b \<and>
                length (old_action_log_probs_batch mb) = b \<and>
                (case adv_targ mb of None \<Rightarrow> advantages = None | Some a \<Rightarrow> length a = b))
             mbs (ff_sampler (T * N) b perm) \<and>
           concat (ff_sampler (T * N) b perm) = take (T * N div b * b) perm \<and>
           distinct (concat (ff_sampler (T * N) b perm)) \<and>
           list_all (\<lambda>i. i < T * N) (concat (ff_sampler (T * N) b perm))"
proof -
  let ?S = "ff_sampler (T * N) b perm"
  let ?G = "\<lambda>indices.
      \<lparr> obs_batch = map (\<lambda>i. concat (butlast (obs s)) ! i) indices,
        recurrent_hidden_states_batch =
          map (\<lambda>i. concat (butlast (recurrent_hidden_states s)) ! i) indices,
        actions_batch = map (\<lambda>i. concat (actions s) ! i) indices,
        value_preds_batch = map (\<lambda>i. concat (butlast (value_preds s)) ! i) indices,
        return_batch = map (\<lambda>i. concat (butlast (returns s)) ! i) indices,
        masks_batch = map (\<lambda>i. concat (butlast (done_masks s)) ! i) indices,
        old_action_log_probs_batch = map (\<lambda>i. concat (action_log_probs s) ! i) indices,
        adv_targ = map_option (\<lambda>adv. map (\<lambda>i. concat adv ! i) indices) advantages \<rparr>"
  from assms(5) have b: "0 < b" by simp
  note sp = ff_sampler_props [OF assms(4) b]
  have gen: "feed_forward_generator s advantages n_mb (Some (int b)) perm = (map ?G ?S, None)"
    by (rule feed_forward_generator_ok [OF assms(1-4) _ assms(5)]) simp
  have "list_all2
         (\<lambda>mb indices.
            mb = ?G indices \<and>
            ff_minibatch s advantages indices = Inr mb \<and> length indices = b \<and>
            length (obs_batch mb) = b \<and> length (recurrent_hidden_states_batch mb) = b \<and>
            length (actions_batch mb) = b \<and> length (value_preds_batch mb) = b \<and>
            length (return_batch mb) = b \<and> length (masks_batch mb) = b \<and>
            length (old_action_log_probs_batch mb) = b \<and>
            (case adv_targ mb of None \<Rightarrow> advantages = None | Some a \<Rightarrow> length a = b))
         (map ?G ?S) ?S"
    unfolding list_all2_conv_all_nth
  proof (rule conjI, simp, intro allI impI)
    fix k assume "k < length (map ?G ?S)"
    then have k: "k < length ?S" by simp
    then have mem: "?S ! k \<in> set ?S" by simp
    from mem sp(2) have l: "length (?S ! k) = b"
      by (simp add: list_all_iff)
    from mem sp(4) have "list_all (\<lambda>i. i < T * N) (?S ! k)"
      by (auto simp add: list_all_iff)
    from ff_minibatch_ok [OF assms(1,3) this] k l
    show "map ?G ?S ! k = ?G (?S ! k) \<and>
        ff_minibatch s advantages (?S ! k) = Inr (map ?G ?S ! k) \<and>
        length (?S ! k) = b \<and>
        length (obs_batch (map ?G ?S ! k)) = b \<and>
        length (recurrent_hidden_states_batch (map ?G ?S ! k)) = b \<and>
        length (actions_batch (map ?G ?S ! k)) = b \<and>
        length (value_preds_batch (map ?G ?S ! k)) = b \<and>
        length (return_batch (map ?G ?S ! k)) = b \<and>
        length (masks_batch (map ?G ?S ! k)) = b \<and>
        length (old_action_log_probs_batch (map ?G ?S ! k)) = b \<and>
        (case adv_targ (map ?G ?S ! k) of None \<Rightarrow> advantages = None
         | Some a \<Rightarrow> length a = b)"
      by (cases advantages) simp_all
  qed
  with gen sp show ?thesis by simp
qed

theorem feed_forward_generator_minibatches_witness:
  "shaped 2 2 example_storage \<and> num_processes example_storage = 2 \<and>
   adv_shaped 2 2 (None :: int list list option) \<and>
   randperm (2 * 2) [2, 0, 1, 3] \<and> (1::nat) \<le> 3 \<and> (3::nat) \<le> 2 * 2 \<and>
   snd (feed_forward_generator example_storage None None (Some (int 3)) [2, 0, 1, 3]) = None \<and>
   length (fst (feed_forward_generator example_storage None None (Some (int 3)) [2, 0, 1, 3]))
     = 2 * 2 div 3 \<and>
   concat (ff_sampler (2 * 2) 3 [2, 0, 1, 3]) = take (2 * 2 div 3 * 3) [2, 0, 1, 3] \<and>
   distinct (concat (ff_sampler (2 * 2) 3 [2, 0, 1, 3]))"
proof -
  have h1: "num_processes example_storage = 2"
    by (simp add: example_storage_def)
  have h2: "adv_shaped 2 2 (None :: int list list option)"
    by (simp add: adv_shaped_def)
  have h3: "randperm (2 * 2) [2, 0, 1, 3]"
    by (simp add: randperm_def)
  have h4: "(1::nat) \<le> 3" and h5: "(3::nat) \<le> 2 * 2"
    by simp_all
  from feed_forward_generator_minibatches [OF shaped_example h1 h2 h3 h4 h5, of None]
  obtain mbs where
    "feed_forward_generator example_storage None None (Some (int 3)) [2, 0, 1, 3] = (mbs, None)"
    "length mbs = 2 * 2 div 3"
    "concat (ff_sampler (2 * 2) 3 [2, 0, 1, 3]) = take (2 * 2 div 3 * 3) [2, 0, 1, 3]"
    "distinct (concat (ff_sampler (2 * 2) 3 [2, 0, 1, 3]))"
    by blast
  with shaped_example h1 h2 h3 h4 h5 show ?thesis
    by simp
qed

lemma feed_forward_generator_no_yield:
  assumes "shaped T N s" and "num_processes s = N"
    and "case minibatch_size of
           Some b \<Rightarrow> b \<le> 0
         | None \<Rightarrow> (case n_mb of None \<Rightarrow> True | Some m \<Rightarrow> m \<le> 0 \<or> int (T * N) < m)"
  shows "fst (feed_forward_generator s advantages n_mb minibatch_size perm) = []"
proof -
  have bs: "num_processes s * length (rewards s) = T * N"
    using assms(1,2) by (simp add: shaped_def time_shaped_def)
  show ?thesis
  proof (cases minibatch_size)
    case (Some b)
    with assms(3) show ?thesis
      by (simp add: feed_forward_generator_def)
  next
    case None
    show ?thesis
    proof (cases n_mb)
      case None
      with \<open>minibatch_size = None\<close> show ?thesis
        by (simp add: feed_forward_generator_def)
    next
      case (Some m)
      with assms(3) \<open>minibatch_size = None\<close> have m: "m \<le> 0 \<or> int (T * N) < m"
        by simp
      have "int (T * N) div m \<le> 0" if "m < 0"
        using that by (intro div_nonneg_neg_le0) simp_all
      with m show ?thesis
        unfolding feed_forward_generator_def Let_def Some \<open>minibatch_size = None\<close> bs
        by (cases "m = 0") (auto simp del: of_nat_mult)
    qed
  qed
qed

text \<open>
  Claim C5, as stated: the recurrent state of every sampled index comes from the first
  recurrent slot, the step-0 state of its environment. On the small buffer the index 2
  (step 1, environment 0) is given the state 200 stored at step 1, not the state 100 that
  slot 0 holds for environment 0.
\<close>

theorem feed_forward_generator_first_slot_counterexample:
  "recurrent_hidden_states_batch
     (fst (feed_forward_generator example_storage None None (Some 1) [2, 0, 1, 3]) ! 0) = [200] \<and>
   recurrent_hidden_states example_storage ! 0 = [100, 101] \<and>
   recurrent_hidden_states example_storage ! 1 ! 0 = 200"
  by (simp add: feed_forward_generator_def ff_sampler_def BatchSampler_def
        SubsetRandomSampler_def ff_minibatch_def bindE_def index_select_def
        example_storage_def)

text \<open>
  Claim C5, amended. In every minibatch that \<open>feed_forward_generator\<close> yields, whether the
  minibatch size \<open>b\<close> is given or derived from \<open>num_minibatches\<close> (as \<open>update\<close> calls it),
  there are \<open>T * N div b\<close> minibatches of \<open>b\<close> entries, and the recurrent state of a sampled
  flattened index \<open>i\<close> is the one stored for that transition itself:
  \<open>recurrent_hidden_states[i div N][i mod N]\<close>, the state at step \<open>i div N\<close> of environment
  \<open>i mod N\<close>, gathered like the observations and every other field. A call with any other
  arguments (a size that is not positive, no size and no count, a count that is not
  positive or exceeds \<open>T * N\<close>) yields no minibatch.
\<close>

theorem feed_forward_generator_recurrent_states:
  assumes "shaped T N s" and "num_processes s = N" and "adv_shaped T N advantages"
    and "randperm (T * N) perm"
    and "minibatch_size = Some (int b) \<or>
         (minibatch_size = None \<and> n_mb = Some m \<and> m \<noteq> 0 \<and> m \<le> int (T * N) \<and>
          int b = int (T * N) div m)"
    and "1 \<le> b"
  shows "snd (feed_forward_generator s advantages n_mb minibatch_size perm) = None \<and>
         length (fst (feed_forward_generator s advantages n_mb minibatch_size perm))
           = T * N div b \<and>
         (\<forall>k < T * N div b.
            length (recurrent_hidden_states_batch
              (fst (feed_forward_generator s advantages n_mb minibatch_size perm) ! k)) = b \<and>
            (\<forall>j < b.
               ff_sampler (T * N) b perm ! k ! j < T * N \<and>
               recurrent_hidden_states_batch
                 (fst (feed_forward_generator s advantages n_mb minibatch_size perm) ! k) ! j
               = recurrent_hidden_states s ! (ff_sampler (T * N) b perm ! k ! j div N)
                                           ! (ff_sampler (T * N) b perm ! k ! j mod N) \<and>
               obs_batch
                 (fst (feed_forward_generator s advantages n_mb minibatch_size perm) ! k) ! j
               = obs s ! (ff_sampler (T * N) b perm ! k ! j div N)
                       ! (ff_sampler (T * N) b perm ! k ! j mod N))) \<and>
         ((case size' of
             Some b' \<Rightarrow> b' \<le> 0
           | None \<Rightarrow> (case n_mb' of None \<Rightarrow> True
                       | Some m' \<Rightarrow> m' \<le> 0 \<or> int (T * N) < m')) \<longrightarrow>
          fst (feed_forward_generator s advantages' n_mb' size' perm') = [])"
proof -
  let ?S = "ff_sampler (T * N) b perm"
  from assms(6) have b: "0 < b" by simp
  note sp = ff_sampler_props [OF assms(4) b]
  note gen = feed_forward_generator_ok [OF assms]
  have r: "rows N (butlast (recurrent_hidden_states s))"
    and l: "length (butlast (recurrent_hidden_states s)) = T"
    and ro: "rows N (butlast (obs s))" and lo: "length (butlast (obs s)) = T"
    using assms(1) by (simp_all add: shaped_def time_shaped_def rows_butlast)
  have entry: "length (?S ! k) = b \<and>
      (\<forall>j<b. ?S ! k ! j < T * N \<and>
        concat (butlast (recurrent_hidden_states s)) ! (?S ! k ! j)
          = recurrent_hidden_states s ! (?S ! k ! j div N) ! (?S ! k ! j mod N) \<and>
        concat (butlast (obs s)) ! (?S ! k ! j)
          = obs s ! (?S ! k ! j div N) ! (?S ! k ! j mod N))"
    if "k < T * N div b" for k
  proof (intro conjI allI impI)
    from that sp(1) have k: "k < length ?S" by simp
    then have mem: "?S ! k \<in> set ?S" by simp
    with sp(2) show len: "length (?S ! k) = b" by (simp add: list_all_iff)
    fix j assume j: "j < b"
    from mem sp(4) have "list_all (\<lambda>i. i < T * N) (?S ! k)"
      by (auto simp add: list_all_iff)
    with len j show i: "?S ! k ! j < T * N"
      by (simp add: list_all_length)
    then have t: "?S ! k ! j div N < T"
      by (rule less_mult_imp_div_less)
    show "concat (butlast (recurrent_hidden_states s)) ! (?S ! k ! j)
          = recurrent_hidden_states s ! (?S ! k ! j div N) ! (?S ! k ! j mod N)"
      using concat_nth_rows [OF r] i l t by (simp add: nth_butlast)
    show "concat (butlast (obs s)) ! (?S ! k ! j)
          = obs s ! (?S ! k ! j div N) ! (?S ! k ! j mod N)"
      using concat_nth_rows [OF ro] i lo t by (simp add: nth_butlast)
  qed
  have none: "(case size' of
             Some b' \<Rightarrow> b' \<le> 0
           | None \<Rightarrow> (case n_mb' of None \<Rightarrow> True
                       | Some m' \<Rightarrow> m' \<le> 0 \<or> int (T * N) < m')) \<longrightarrow>
          fst (feed_forward_generator s advantages' n_mb' size' perm') = []"
    using feed_forward_generator_no_yield [OF assms(1,2)] by blast
  have "snd (feed_forward_generator s advantages n_mb minibatch_size perm) = None \<and>
         length (fst (feed_forward_generator s advantages n_mb minibatch_size perm))
           = T * N div b \<and>
         (\<forall>k < T * N div b.
            length (recurrent_hidden_states_batch
              (fst (feed_forward_generator s advantages n_mb minibatch_size perm) ! k)) = b \<and>
            (\<forall>j < b.
               ff_sampler (T * N) b perm ! k ! j < T * N \<and>
               recurrent_hidden_states_batch
                 (fst (feed_forward_generator s advantages n_mb minibatch_size perm) ! k) ! j
               = recurrent_hidden_states s ! (ff_sampler (T * N) b perm ! k ! j div N)
                                           ! (ff_sampler (T * N) b perm ! k ! j mod N) \<and>
               obs_batch
                 (fst (feed_forward_generator s advantages n_mb minibatch_size perm) ! k) ! j
               = obs s ! (ff_sampler (T * N) b perm ! k ! j div N)
                       ! (ff_sampler (T * N) b perm ! k ! j mod N)))"
    unfolding gen using sp(1) entry by simp
  with none show ?thesis by blast
qed

theorem feed_forward_generator_recurrent_states_witness:
  "shaped 2 2 example_storage \<and> num_processes example_storage = 2 \<and>
   adv_shaped 2 2 (None :: int list list option) \<and>
   randperm (2 * 2) [2, 0, 1, 3] \<and>
   (3::int) \<noteq> 0 \<and> (3::int) \<le> int (2 * 2) \<and> int 1 = int (2 * 2) div 3 \<and> (1::nat) \<le> 1 \<and>
   length (fst (feed_forward_generator example_storage None (Some 3) None [2, 0, 1, 3]))
     = 2 * 2 div 1 \<and>
   recurrent_hidden_states_batch
     (fst (feed_forward_generator example_storage None (Some 3) None [2, 0, 1, 3]) ! 0) ! 0
     = recurrent_hidden_states example_storage
         ! (ff_sampler (2 * 2) 1 [2, 0, 1, 3] ! 0 ! 0 div 2)
         ! (ff_sampler (2 * 2) 1 [2, 0, 1, 3] ! 0 ! 0 mod 2)"
proof -
  have h1: "num_processes example_storage = 2"
    by (simp add: example_storage_def)
  have h2: "adv_shaped 2 2 (None :: int list list option)"
    by (simp add: adv_shaped_def)
  have h3: "randperm (2 * 2) [2, 0, 1, 3]"
    by (simp add: randperm_def)
  have h4: "(3::int) \<noteq> 0" "(3::int) \<le> int (2 * 2)" "int 1 = int (2 * 2) div 3"
    and h6: "(1::nat) \<le> 1"
    by simp_all
  have h5: "(None :: int option) = Some (int 1) \<or>
      ((None :: int option) = None \<and> Some (3::int) = Some 3 \<and> (3::int) \<noteq> 0 \<and>
       (3::int) \<le> int (2 * 2) \<and> int 1 = int (2 * 2) div 3)"
    by simp
  from feed_forward_generator_recurrent_states [OF shaped_example h1 h2 h3 h5 h6]
  have "length (fst (feed_forward_generator example_storage None (Some 3) None [2, 0, 1, 3]))
     = 2 * 2 div 1"
    and "recurrent_hidden_states_batch
     (fst (feed_forward_generator example_storage None (Some 3) None [2, 0, 1, 3]) ! 0) ! 0
     = recurrent_hidden_states example_storage
         ! (ff_sampler (2 * 2) 1 [2, 0, 1, 3] ! 0 ! 0 div 2)
         ! (ff_sampler (2 * 2) 1 [2, 0, 1, 3] ! 0 ! 0 mod 2)"
    by simp_all
  with shaped_example h1 h2 h3 h4 h6 show ?thesis
    by blast
qed

lemma rg_minibatch_error:
  "rg_minibatch s advantages perm k start = Inl e \<Longrightarrow> e = IndexError"
  by (auto simp add: rg_minibatch_def bindE_def index_select_def Let_def split: if_splits)

lemma rg_yield_error:
  "snd (rg_yield s advantages perm k starts) = Some e \<Longrightarrow> e = IndexError"
proof (induction starts)
  case Nil
  then show ?case by simp
next
  case (Cons start rest)
  then show ?case
    by (auto split: sum.splits prod.splits dest: rg_minibatch_error)
qed

text \<open>
  Claim C4, amended. \<open>recurrent_generator\<close> requires \<open>N \<ge> num_minibatches\<close>: on a buffer
  of \<open>N\<close> environments (of any number of steps) it fails, for every \<open>N < num_minibatches\<close>,
  with the assertion error before any minibatch is produced. That is its only check: with
  \<open>num_minibatches \<le> N\<close> no assertion fails, whether \<open>num_minibatches\<close> divides \<open>N\<close> or not.
\<close>

theorem recurrent_generator_assertion:
  assumes "shaped T N s" and "num_processes s = N"
  shows "(int N < n_mb \<longrightarrow>
            recurrent_generator s advantages n_mb perm = ([], Some AssertionError)) \<and>
         (n_mb \<le> int N \<longrightarrow>
            snd (recurrent_generator s advantages n_mb perm) \<noteq> Some AssertionError)"
proof (intro conjI impI)
  assume "int N < n_mb"
  then show "recurrent_generator s advantages n_mb perm = ([], Some AssertionError)"
    by (simp add: recurrent_generator_def assms(2))
next
  assume le: "n_mb \<le> int N"
  show "snd (recurrent_generator s advantages n_mb perm) \<noteq> Some AssertionError"
  proof
    assume a: "snd (recurrent_generator s advantages n_mb perm) = Some AssertionError"
    show False
    proof (cases "n_mb = 0")
      case True
      with a le show False by (simp add: recurrent_generator_def assms(2))
    next
      case False
      show False
      proof (cases "range_step N (int N div n_mb)")
        case (Inl e)
        then have "e = ValueError"
          by (auto simp add: range_step_def split: if_splits)
        with a le False Inl show False
          by (simp add: recurrent_generator_def Let_def assms(2))
      next
        case (Inr starts)
        with a le False have
          "snd (rg_yield s advantages perm (nat (int N div n_mb)) starts)
             = Some AssertionError"
          by (simp add: recurrent_generator_def Let_def assms(2))
        from rg_yield_error [OF this] show False by simp
      qed
    qed
  qed
qed

theorem recurrent_generator_assertion_witness:
  "shaped 2 2 example_storage \<and> num_processes example_storage = 2 \<and>
   int 2 < 3 \<and>
   recurrent_generator example_storage [[1, 2], [3, 4]] 3 [1, 0] = ([], Some AssertionError) \<and>
   (2::int) \<le> int 2 \<and>
   snd (recurrent_generator example_storage [[1, 2], [3, 4]] 2 [1, 0]) \<noteq> Some AssertionError"
proof -
  have h0: "num_processes example_storage = 2"
    by (simp add: example_storage_def)
  have h1: "int 2 < 3" and h2: "(2::int) \<le> int 2"
    by simp_all
  from recurrent_generator_assertion [OF shaped_example h0, of 3 "[[1, 2], [3, 4]]" "[1, 0]"]
    recurrent_generator_assertion [OF shaped_example h0, of 2 "[[1, 2], [3, 4]]" "[1, 0]"]
    shaped_example h0 h1 h2
  show ?thesis
    by blast
qed

text \<open>
  Claim C4, as stated: the generator fails, before any minibatch, whenever \<open>N\<close> is not
  divisible by \<open>num_minibatches\<close>. With \<open>N = 4\<close> and \<open>num_minibatches = 3\<close> each minibatch
  takes \<open>4 // 3 = 1\<close> environment, and the generator yields four minibatches and ends
  without an error.
\<close>

theorem recurrent_generator_not_divisible_counterexample:
  "num_processes example_storage4 = 4 \<and> \<not> (3::int) dvd 4 \<and>
   snd (recurrent_generator example_storage4 [[1, 2, 3, 4]] 3 [0, 1, 2, 3]) = None \<and>
   length (fst (recurrent_generator example_storage4 [[1, 2, 3, 4]] 3 [0, 1, 2, 3])) = 4"
  by code_simp

subsection \<open>The learner\<close>

lemma schedule_groups_ok:
  assumes "total_epochs \<noteq> 0"
  shows "schedule_groups lr0 current_epoch total_epochs gs =
     Inr (map (\<lambda>g. if pg_name g = OPT_ACTOR_PARAMS
                     then g\<lparr>pg_lr := lr0 - lr0 * (real_of_int current_epoch
                                                    / real_of_int total_epochs)\<rparr>
                     else g) gs)"
  using assms
  by (induction gs) (simp_all add: bindE_def Let_def)

lemma schedule_groups_zero:
  assumes "list_ex (\<lambda>g. pg_name g = OPT_ACTOR_PARAMS) gs"
  shows "schedule_groups lr0 current_epoch 0 gs = Inl ZeroDivisionError"
  using assms
  by (induction gs) (auto simp add: bindE_def)

text \<open>
  Claim C9, as stated: for every \<open>current_epoch\<close> and \<open>total_epochs\<close> the actor's learning
  rate is set. For \<open>total_epochs = 0\<close> the division raises ZeroDivisionError and no learning
  rate is set.
\<close>

theorem update_linear_schedule_zero_epochs_counterexample:
  "update_linear_schedule example_ppo 3 0 = Inl ZeroDivisionError"
  by (simp add: update_linear_schedule_def example_ppo_def PPO_init_def bindE_def)

text \<open>
  Claim C9, amended. For every \<open>current_epoch\<close> and every \<open>total_epochs\<close> other than 0,
  \<open>update_linear_schedule\<close> sets the learning rate of the parameter groups named
  \<open>OPT_ACTOR_PARAMS\<close> to \<open>initial_actor_lr - initial_actor_lr * (current_epoch /
  total_epochs)\<close>, which over the reals is \<open>initial_actor_lr * (1 - current_epoch /
  total_epochs)\<close>, and leaves every other group and every other field as it was: in the
  learner that \<open>__init__\<close> builds, the first group gets the new rate and the critic's group
  is unchanged. For \<open>total_epochs = 0\<close> the call raises ZeroDivisionError in every learner
  with an actor group, those of \<open>__init__\<close> among them.
\<close>

theorem update_linear_schedule_actor_only:
  "(total_epochs \<noteq> 0 \<longrightarrow>
      update_linear_schedule ppo current_epoch total_epochs =
        Inr (ppo\<lparr>param_groups :=
               map (\<lambda>g. if pg_name g = OPT_ACTOR_PARAMS
                         then g\<lparr>pg_lr := initial_actor_lr ppo
                                - initial_actor_lr ppo
                                  * (real_of_int current_epoch / real_of_int total_epochs)\<rparr>
                         else g)
                 (param_groups ppo)\<rparr>)) \<and>
   initial_actor_lr ppo
     - initial_actor_lr ppo * (real_of_int current_epoch / real_of_int total_epochs)
     = initial_actor_lr ppo * (1 - real_of_int current_epoch / real_of_int total_epochs) \<and>
   (total_epochs \<noteq> 0 \<longrightarrow>
      update_linear_schedule
        (PPO_init ac clip epochs minibatches ent_coef val_coef actor_lr critic_lr eps grad_norm
           clipped) current_epoch total_epochs =
        Inr ((PPO_init ac clip epochs minibatches ent_coef val_coef actor_lr critic_lr eps
                grad_norm clipped)
             \<lparr>param_groups :=
                [\<lparr>pg_name = OPT_ACTOR_PARAMS,
                  pg_lr = actor_lr * (1 - real_of_int current_epoch / real_of_int total_epochs),
                  pg_eps = eps\<rparr>,
                 \<lparr>pg_name = OPT_CRITIC_PARAMS, pg_lr = critic_lr, pg_eps = eps\<rparr>]\<rparr>)) \<and>
   (list_ex (\<lambda>g. pg_name g = OPT_ACTOR_PARAMS) (param_groups ppo) \<longrightarrow>
      update_linear_schedule ppo current_epoch 0 = Inl ZeroDivisionError) \<and>
   update_linear_schedule
     (PPO_init ac clip epochs minibatches ent_coef val_coef actor_lr critic_lr eps grad_norm
        clipped) current_epoch 0 = Inl ZeroDivisionError"
proof (intro conjI impI)
  assume t: "total_epochs \<noteq> 0"
  show "update_linear_schedule ppo current_epoch total_epochs =
        Inr (ppo\<lparr>param_groups :=
               map (\<lambda>g. if pg_name g = OPT_ACTOR_PARAMS
                         then g\<lparr>pg_lr := initial_actor_lr ppo
                                - initial_actor_lr ppo
                                  * (real_of_int current_epoch / real_of_int total_epochs)\<rparr>
                         else g)
                 (param_groups ppo)\<rparr>)"
    by (simp add: update_linear_schedule_def schedule_groups_ok [OF t] bindE_def)
next
  show "initial_actor_lr ppo
     - initial_actor_lr ppo * (real_of_int current_epoch / real_of_int total_epochs)
     = initial_actor_lr ppo * (1 - real_of_int current_epoch / real_of_int total_epochs)"
    by (simp add: right_diff_distrib)
next
  assume t: "total_epochs \<noteq> 0"
  show "update_linear_schedule
        (PPO_init ac clip epochs minibatches ent_coef val_coef actor_lr critic_lr eps grad_norm
           clipped) current_epoch total_epochs =
        Inr ((PPO_init ac clip epochs minibatches ent_coef val_coef actor_lr critic_lr eps
                grad_norm clipped)
             \<lparr>param_groups :=
                [\<lparr>pg_name = OPT_ACTOR_PARAMS,
                  pg_lr = actor_lr * (1 - real_of_int current_epoch / real_of_int total_epochs),
                  pg_eps = eps\<rparr>,
                 \<lparr>pg_name = OPT_CRITIC_PARAMS, pg_lr = critic_lr, pg_eps = eps\<rparr>]\<rparr>)"
    using t
    by (simp add: update_linear_schedule_def bindE_def PPO_init_def
          OPT_ACTOR_PARAMS_def OPT_CRITIC_PARAMS_def right_diff_distrib)
next
  assume "list_ex (\<lambda>g. pg_name g = OPT_ACTOR_PARAMS) (param_groups ppo)"
  then show "update_linear_schedule ppo current_epoch 0 = Inl ZeroDivisionError"
    by (simp add: update_linear_schedule_def schedule_groups_zero bindE_def)
next
  show "update_linear_schedule
     (PPO_init ac clip epochs minibatches ent_coef val_coef actor_lr critic_lr eps grad_norm
        clipped) current_epoch 0 = Inl ZeroDivisionError"
    by (simp add: update_linear_schedule_def PPO_init_def bindE_def)
qed

theorem update_linear_schedule_actor_only_witness:
  "(4::int) \<noteq> 0 \<and>
   update_linear_schedule example_ppo 1 4 =
     Inr (example_ppo\<lparr>param_groups :=
       [\<lparr>pg_name = OPT_ACTOR_PARAMS, pg_lr = 3 / 10000 * (1 - 1 / 4),
         pg_eps = Some (1 / 100000)\<rparr>,
        \<lparr>pg_name = OPT_CRITIC_PARAMS, pg_lr = 1 / 1000, pg_eps = Some (1 / 100000)\<rparr>]\<rparr>) \<and>
   list_ex (\<lambda>g. pg_name g = OPT_ACTOR_PARAMS) (param_groups example_ppo) \<and>
   update_linear_schedule example_ppo 1 0 = Inl ZeroDivisionError"
proof -
  have h: "(4::int) \<noteq> 0" by simp
  have a: "list_ex (\<lambda>g. pg_name g = OPT_ACTOR_PARAMS) (param_groups example_ppo)"
    by (simp add: example_ppo_def PPO_init_def)
  note w = update_linear_schedule_actor_only
    [of 4 "example_ppo :: nat PPO" 1 "0::nat" "1 / 5" 1 3 "1 / 100" "1 / 2" "3 / 10000" "1 / 1000"
       "Some (1 / 100000)" "Some (1 / 2)" True]
  from w h have "update_linear_schedule
        (PPO_init (0::nat) (1 / 5) 1 3 (1 / 100) (1 / 2) (3 / 10000) (1 / 1000)
           (Some (1 / 100000)) (Some (1 / 2)) True) 1 4 =
        Inr ((PPO_init 0 (1 / 5) 1 3 (1 / 100) (1 / 2) (3 / 10000) (1 / 1000)
                (Some (1 / 100000)) (Some (1 / 2)) True)
             \<lparr>param_groups :=
                [\<lparr>pg_name = OPT_ACTOR_PARAMS,
                  pg_lr = 3 / 10000 * (1 - real_of_int 1 / real_of_int 4),
                  pg_eps = Some (1 / 100000)\<rparr>,
                 \<lparr>pg_name = OPT_CRITIC_PARAMS, pg_lr = 1 / 1000,
                  pg_eps = Some (1 / 100000)\<rparr>]\<rparr>)"
    by blast
  then have "update_linear_schedule example_ppo 1 4 =
     Inr (example_ppo\<lparr>param_groups :=
       [\<lparr>pg_name = OPT_ACTOR_PARAMS, pg_lr = 3 / 10000 * (1 - 1 / 4),
         pg_eps = Some (1 / 100000)\<rparr>,
        \<lparr>pg_name = OPT_CRITIC_PARAMS, pg_lr = 1 / 1000, pg_eps = Some (1 / 100000)\<rparr>]\<rparr>)"
    by (simp add: example_ppo_def)
  moreover from w a have "update_linear_schedule example_ppo 1 0 = Inl ZeroDivisionError"
    by blast
  ultimately show ?thesis
    using h a by blast
qed

text \<open>
  Claim C6 on the small example: one epoch, \<open>num_minibatches = 3\<close>, four transitions, a
  learner with numbers for \<open>max_grad_norm\<close> and \<open>eps\<close>. The standardised advantages are 0.
  The minibatch size is \<open>4 // 3 = 1\<close>, so the generator yields four samples and four
  gradient steps are taken (the policy counts them), each with the losses \<open>(2, 0, 1)\<close>:
  their averages are \<open>(2, 0, 1)\<close>. \<open>update\<close> divides the sums \<open>(8, 0, 4)\<close> by
  \<open>num_epochs * num_minibatches = 3\<close>.
\<close>

theorem update_average_failing_input:
  "max_grad_norm example_ppo = Some (1 / 2) \<and>
   map pg_eps (param_groups example_ppo) = [Some (1 / 100000), Some (1 / 100000)] \<and>
   num_epochs example_ppo = 1 \<and> num_minibatches example_ppo = 3 \<and>
   normalized_advantages example_rollouts = Inr [[0, 0, 0, 0]] \<and>
   length (fst (feed_forward_generator example_rollouts (Some [[0, 0, 0, 0]]) (Some 3) None
                  [2, 0, 3, 1])) = 4 \<and>
   map (sample_losses example_ppo counting_collaborators)
     (fst (feed_forward_generator example_rollouts (Some [[0, 0, 0, 0]]) (Some 3) None
             [2, 0, 3, 1]))
     = [Inr (2, 0, 1), Inr (2, 0, 1), Inr (2, 0, 1), Inr (2, 0, 1)] \<and>
   update example_ppo counting_collaborators example_rollouts (\<lambda>e. [2, 0, 3, 1])
     = Inr (example_ppo\<lparr>actor_critic := 4\<rparr>, 8 / 3, 0, 4 / 3)"
  by (simp add: update_def example_ppo_def PPO_init_def counting_collaborators_def
      example_rollouts_def normalized_advantages_def mean_def std_def number_def clamp_def
      feed_forward_generator_def ff_sampler_def BatchSampler_def SubsetRandomSampler_def
      ff_minibatch_def bindE_def index_select_def sample_losses_def
      t_sub_def t_mul_def t_add_def Let_def power2_eq_square)

end
